theory Spec2Isabelle
  imports Complex_Main
begin

section \<open>Numbers and matrix elements\<close>

text \<open>
  Neo.js stores a 2D affine matrix as the array \<open>elements = [a, b, c, d, e, f]\<close>, standing for
  the matrix with rows \<open>(a c e)\<close>, \<open>(b d f)\<close>, \<open>(0 0 1)\<close>.  The six entries are the fields
  \<open>el0\<close> .. \<open>el5\<close> of a record, named after the array index the source reads.

  A finite JavaScript Number is modelled by a real: arithmetic is exact, rounding to binary64
  and the sign of zero are not represented.  The values that are not finite numbers are kept
  apart in the type \<open>number\<close>: \<open>Infinite\<close> is \<open>Infinity\<close> or \<open>-Infinity\<close>.
\<close>

datatype number = Finite real | Infinite | NaN

record 'n elems =
  el0 :: 'n
  el1 :: 'n
  el2 :: 'n
  el3 :: 'n
  el4 :: 'n
  el5 :: 'n

type_synonym neo = "real elems"

definition elems_of :: "'n \<Rightarrow> 'n \<Rightarrow> 'n \<Rightarrow> 'n \<Rightarrow> 'n \<Rightarrow> 'n \<Rightarrow> 'n elems" where
  "elems_of a b c d e f = \<lparr>el0 = a, el1 = b, el2 = c, el3 = d, el4 = e, el5 = f\<rparr>"

definition to_list :: "'n elems \<Rightarrow> 'n list" where
  "to_list m = [el0 m, el1 m, el2 m, el3 m, el4 m, el5 m]"

text \<open>\<open>reset\<close> installs \<open>[1, 0, 0, 1, 0, 0]\<close>; \<open>new Neo()\<close> with no argument calls it.\<close>

definition identity :: neo where
  "identity = elems_of 1 0 0 1 0 0"

section \<open>Matrix methods on finite elements\<close>

text \<open>\<open>multiply\<close>: \<open>m1\<close> is the receiver's array, \<open>m2\<close> the argument's (or the six arguments).\<close>

definition multiply :: "neo \<Rightarrow> neo \<Rightarrow> neo" where
  "multiply m1 m2 =
     (let a1 = el0 m1; a2 = el0 m2;
          b1 = el1 m1; b2 = el1 m2;
          c1 = el2 m1; c2 = el2 m2;
          d1 = el3 m1; d2 = el3 m2;
          e1 = el4 m1; e2 = el4 m2;
          f1 = el5 m1; f2 = el5 m2
      in elems_of
           ((a1 * a2) + (c1 * b2))
           ((b1 * a2) + (d1 * b2))
           ((a1 * c2) + (c1 * d2))
           ((b1 * c2) + (d1 * d2))
           ((a1 * e2) + (c1 * f2) + e1)
           ((b1 * e2) + (d1 * f2) + f1))"

definition translate :: "neo \<Rightarrow> real \<Rightarrow> real \<Rightarrow> neo" where
  "translate this tx ty = multiply this (elems_of 1 0 0 1 tx ty)"

definition translateX :: "neo \<Rightarrow> real \<Rightarrow> neo" where
  "translateX this tx = multiply this (elems_of 1 0 0 1 tx 0)"

definition translateY :: "neo \<Rightarrow> real \<Rightarrow> neo" where
  "translateY this ty = multiply this (elems_of 1 0 0 1 0 ty)"

text \<open>
  \<open>scale(sx, sy, ox, oy)\<close>.  An omitted argument is \<open>None\<close>.  \<open>sy = sy || sx\<close> replaces a
  falsy \<open>sy\<close> (omitted, or the number 0) by \<open>sx\<close>.  The source assumes that \<open>oy\<close> is passed
  whenever \<open>ox\<close> is, so the pivot is one optional pair.
\<close>

definition or_default :: "real option \<Rightarrow> real \<Rightarrow> real" where
  "or_default v dflt = (case v of None \<Rightarrow> dflt | Some x \<Rightarrow> if x = 0 then dflt else x)"

fun scale :: "neo \<Rightarrow> real \<Rightarrow> real option \<Rightarrow> (real \<times> real) option \<Rightarrow> neo" where
  "scale this sx sy None = multiply this (elems_of sx 0 0 (or_default sy sx) 0 0)"
| "scale this sx sy (Some (ox, oy)) =
     translate (scale (translate this (- ox) (- oy)) sx (Some (or_default sy sx)) None) ox oy"

definition scaleX :: "neo \<Rightarrow> real \<Rightarrow> neo" where
  "scaleX this sx = multiply this (elems_of sx 0 0 1 0 0)"

definition scaleY :: "neo \<Rightarrow> real \<Rightarrow> neo" where
  "scaleY this sy = multiply this (elems_of 1 0 0 sy 0 0)"

definition rotateRad :: "neo \<Rightarrow> real \<Rightarrow> neo" where
  "rotateRad this r =
     (let cosR = cos r; sinR = sin r
      in multiply this (elems_of cosR sinR (- sinR) cosR 0 0))"

text \<open>The degree to radian factor is the literal of the source, not \<open>pi / 180\<close>.\<close>

definition deg2rad :: real where
  "deg2rad = 0.01745329251994"

fun rotate_deg :: "neo \<Rightarrow> real \<Rightarrow> (real \<times> real) option \<Rightarrow> neo" where
  "rotate_deg this r None = rotateRad this (r * deg2rad)"
| "rotate_deg this r (Some (ox, oy)) =
     translate (rotate_deg (translate this (- ox) (- oy)) r None) ox oy"

definition flipX :: "neo \<Rightarrow> neo" where
  "flipX this = scale this (- 1) (Some 1) None"

definition flipY :: "neo \<Rightarrow> neo" where
  "flipY this = scale this 1 (Some (- 1)) None"

definition skewXRad :: "neo \<Rightarrow> real \<Rightarrow> neo" where
  "skewXRad this ax = multiply this (elems_of 1 0 (tan ax) 1 0 0)"

definition skewYRad :: "neo \<Rightarrow> real \<Rightarrow> neo" where
  "skewYRad this ay = multiply this (elems_of 1 (tan ay) 0 1 0 0)"

definition skewX :: "neo \<Rightarrow> real \<Rightarrow> neo" where
  "skewX this ax = skewXRad this (ax * deg2rad)"

definition skewY :: "neo \<Rightarrow> real \<Rightarrow> neo" where
  "skewY this ay = skewYRad this (ay * deg2rad)"

definition clone :: "neo \<Rightarrow> neo" where
  "clone m = elems_of (el0 m) (el1 m) (el2 m) (el3 m) (el4 m) (el5 m)"

definition apply_point :: "neo \<Rightarrow> real \<Rightarrow> real \<Rightarrow> real \<times> real" where
  "apply_point this x y =
     ((el0 this * x) + (el2 this * y) + el4 this,
      (el1 this * x) + (el3 this * y) + el5 this)"

subsection \<open>inverse\<close>

text \<open>
  Division of finite numbers.  A zero divisor does not raise in JavaScript: the quotient is
  \<open>NaN\<close> for a zero dividend and \<open>Infinity\<close> or \<open>-Infinity\<close> otherwise.
\<close>

definition divide_js :: "real \<Rightarrow> real \<Rightarrow> number" where
  "divide_js x y = (if y = 0 then (if x = 0 then NaN else Infinite) else Finite (x / y))"

text \<open>
  The source has no \<open>throw\<close>.  \<open>SingularMatrix\<close> is the failure that the specification names
  for \<open>invert\<close>; \<open>RangeError\<close> is what the built-in \<open>toFixed\<close> raises for more than 100 digits.

  \<open>inverse\<close> computes the determinant and divides by it, with no test before.
  \<open>inverse_elements\<close> is the array it fills; \<open>inverse_neo\<close> is the outcome of the call, which is
  always a normal return.
\<close>

datatype error = SingularMatrix | RangeError

definition inverse_elements :: "neo \<Rightarrow> number elems" where
  "inverse_elements m =
     (let determinant = (el0 m * el3 m) - (el2 m * el1 m)
      in elems_of
           (divide_js (el3 m) determinant)
           (divide_js (- el1 m) determinant)
           (divide_js (- el2 m) determinant)
           (divide_js (el0 m) determinant)
           (divide_js ((el2 m * el5 m) - (el4 m * el3 m)) determinant)
           (divide_js ((el4 m * el1 m) - (el0 m * el5 m)) determinant))"

definition inverse_neo :: "neo \<Rightarrow> error + number elems" where
  "inverse_neo m = Inr (inverse_elements m)"

definition finite_elems :: "neo \<Rightarrow> number elems" where
  "finite_elems m =
     elems_of (Finite (el0 m)) (Finite (el1 m)) (Finite (el2 m))
              (Finite (el3 m)) (Finite (el4 m)) (Finite (el5 m))"

subsection \<open>equals\<close>

text \<open>
  \<open>equals\<close> compares the receiver with the array \<open>m\<close> (the other instance's elements, or the
  six numbers passed).  The tolerance argument goes through \<open>|| 1e-7\<close>: omitted or 0, it
  becomes \<open>1e-7\<close>.  The loop runs over the six indices and only ever clears the flag.
\<close>

definition default_tolerance :: real where
  "default_tolerance = 1 / 10 ^ 7"

fun equals_loop :: "real list \<Rightarrow> real list \<Rightarrow> real \<Rightarrow> nat list \<Rightarrow> bool \<Rightarrow> bool" where
  "equals_loop es m tolerance [] eq = eq"
| "equals_loop es m tolerance (i # is) eq =
     (let e1 = es ! i; e2 = m ! i
      in equals_loop es m tolerance is
           (if (e1 > e2 + tolerance) \<or> (e1 < e2 - tolerance) then False else eq))"

definition equals :: "neo \<Rightarrow> neo \<Rightarrow> real option \<Rightarrow> bool" where
  "equals this m tolerance =
     equals_loop (to_list this) (to_list m) (or_default tolerance default_tolerance) [0..<6] True"

section \<open>Decomposition\<close>

record decomposition =
  dTranslateX :: real
  dTranslateY :: real
  dScaleX :: real
  dScaleY :: real
  dShear :: real
  dRotate :: real
  dRotationRads :: real
  dRotationDegs :: real

definition magnitude :: "real \<times> real \<Rightarrow> real" where
  "magnitude vector = sqrt ((fst vector * fst vector) + (snd vector * snd vector))"

definition dotProduct :: "real \<times> real \<Rightarrow> real \<times> real \<Rightarrow> real" where
  "dotProduct vector1 vector2 = ((fst vector1 * fst vector2) + (snd vector1 * snd vector2))"

definition combine :: "real \<times> real \<Rightarrow> real \<times> real \<Rightarrow> real \<times> real" where
  "combine vector1 vector2 = ((fst vector1 + fst vector2), (snd vector1 + snd vector2))"

definition scalar :: "real \<times> real \<Rightarrow> real \<Rightarrow> real \<times> real" where
  "scalar vector s = ((fst vector * s), (snd vector * s))"

text \<open>
  \<open>Neo.decompose\<close> returns \<open>false\<close> (here \<open>None\<close>) when \<open>a * d - b * c\<close> is 0, and the record
  of components otherwise.  After the test the two divisors, \<open>mag\<close> and \<open>scaleY\<close>, are not 0
  in exact arithmetic (lemmas \<open>magnitude_pos\<close> and \<open>scaleY_value\<close> below), so every
  quotient taken is a finite number.
\<close>

definition decompose :: "neo \<Rightarrow> decomposition option" where
  "decompose m =
     (let a = el0 m; b = el1 m; c = el2 m; d = el3 m; e = el4 m; f = el5 m
      in if ((a * d) - (b * c)) = 0 then None
         else
           let mag = magnitude (a, b);
               a' = a / mag;
               b' = b / mag;
               scaledShear = dotProduct (a', b') (c, d);
               desheared = combine (scalar (a', b') (- scaledShear)) (c, d);
               scaleY = magnitude (fst desheared, snd desheared);
               shear = scaledShear / scaleY;
               cosA = a';
               sinA = b';
               rot = (if sinA \<ge> 0 then arccos cosA else ((2 * pi) - arccos cosA))
           in Some \<lparr>dTranslateX = e, dTranslateY = f, dScaleX = mag, dScaleY = scaleY,
                    dShear = shear, dRotate = rot, dRotationRads = rot,
                    dRotationDegs = rot * (180 / pi)\<rparr>)"

subsection \<open>Recomposition\<close>

text \<open>
  The source has no recomposition function.  \<open>recompose_spec\<close> follows the words of the
  specification: \<open>translate(tx, ty) \<circ> scale(sx, sy) \<circ> skewX(atan(shear)) \<circ> rotateRadians(r)\<close>,
  where \<open>self \<circ> other\<close> is \<open>self.multiply(other)\<close>, that is the builder chain
  \<open>translate, scale, skewXRad, rotateRad\<close> from the identity (translation outermost,
  rotation innermost).  \<open>recompose_chain\<close> is the other reading of "rotate, then shear, then
  scale, then translate": the four builder calls chained in that order.  \<open>recompose\<close> is the
  chain \<open>translate, rotateRad, skewXRad, scale\<close>, the product that the steps of
  \<open>Neo.decompose\<close> undo.
\<close>

definition recompose_spec :: "decomposition \<Rightarrow> neo" where
  "recompose_spec r =
     rotateRad
       (skewXRad
          (scale (translate identity (dTranslateX r) (dTranslateY r))
             (dScaleX r) (Some (dScaleY r)) None)
          (arctan (dShear r)))
       (dRotationRads r)"

definition recompose_chain :: "decomposition \<Rightarrow> neo" where
  "recompose_chain r =
     translate
       (scale
          (skewXRad (rotateRad identity (dRotationRads r)) (arctan (dShear r)))
          (dScaleX r) (Some (dScaleY r)) None)
       (dTranslateX r) (dTranslateY r)"

definition recompose :: "decomposition \<Rightarrow> neo" where
  "recompose r =
     scale
       (skewXRad
          (rotateRad (translate identity (dTranslateX r) (dTranslateY r)) (dRotationRads r))
          (arctan (dShear r)))
       (dScaleX r) (Some (dScaleY r)) None"

section \<open>toCSSString\<close>

text \<open>
  \<open>toCSSString(precision)\<close>.  The argument is absent (\<open>None\<close>) or a number of digits;
  \<open>precision || 7\<close> turns an absent or zero precision into 7.  \<open>limit\<close> is
  \<open>+('1e-' + (precision || 7))\<close>.

  \<open>s(float)\<close> is \<open>+(float ? float.toFixed(precision || 7) : false)\<close>: for a falsy \<open>float\<close> it is
  \<open>+false\<close>, that is 0.  \<open>toFixed_plus\<close> is \<open>toFixed\<close> followed by the unary plus: \<open>toFixed\<close>
  raises \<open>RangeError\<close> for more than 100 digits, returns the number's own string from
  \<open>1e21\<close> on, and otherwise rounds the magnitude to the nearest multiple of \<open>10^-digits\<close>,
  the larger one on a tie.

  The conversion of a number to a string, applied where the source concatenates a number with
  a string, is the parameter \<open>str\<close> of the functions below.

  \<open>toCSSString\<close> obtains the components from the method \<open>decompose\<close>, which also assigns the
  receiver's field \<open>decomposed\<close> (\<open>Neo_decompose\<close> below); here only the value returned counts.
  When it is \<open>false\<close>, every test of the initialisers is false, no \<open>s\<close> is called, and the
  \<open>else\<close> branch returns the \<open>matrix(...)\<close> form.
\<close>

definition r2d :: real where
  "r2d = 57.29577951308232"

definition precision_or_7 :: "nat option \<Rightarrow> nat" where
  "precision_or_7 precision = (case precision of None \<Rightarrow> 7 | Some p \<Rightarrow> if p = 0 then 7 else p)"

definition limit_of :: "nat option \<Rightarrow> real" where
  "limit_of precision = 1 / 10 ^ precision_or_7 precision"

definition toFixed_plus :: "real \<Rightarrow> nat \<Rightarrow> error + real" where
  "toFixed_plus x digits =
     (if digits > 100 then Inl RangeError
      else if \<bar>x\<bar> \<ge> 10 ^ 21 then Inr x
      else Inr (sgn x * real_of_int \<lfloor>\<bar>x\<bar> * 10 ^ digits + 1 / 2\<rfloor> / 10 ^ digits))"

definition s_fixed :: "nat option \<Rightarrow> real \<Rightarrow> error + real" where
  "s_fixed precision float =
     (if float \<noteq> 0 then toFixed_plus float (precision_or_7 precision) else Inr 0)"

text \<open>
  \<open>s_value\<close> is the number that \<open>s\<close> returns.  When \<open>toFixed\<close> raises there is none; the
  statements that use \<open>s_value\<close> assume a precision of at most 100 digits, where \<open>s\<close> returns.
\<close>

definition s_value :: "nat option \<Rightarrow> real \<Rightarrow> real" where
  "s_value precision float = (case s_fixed precision float of Inr v \<Rightarrow> v | Inl e \<Rightarrow> float)"

definition bind_err :: "error + 'a \<Rightarrow> ('a \<Rightarrow> error + 'b) \<Rightarrow> error + 'b" where
  "bind_err r f = (case r of Inl e \<Rightarrow> Inl e | Inr x \<Rightarrow> f x)"

definition truthy_str :: "string option \<Rightarrow> bool" where
  "truthy_str v = (case v of None \<Rightarrow> False | Some t \<Rightarrow> t \<noteq> [])"

definition truthy_num :: "real option \<Rightarrow> bool" where
  "truthy_num v = (case v of None \<Rightarrow> False | Some x \<Rightarrow> x \<noteq> 0)"

fun join :: "string \<Rightarrow> string list \<Rightarrow> string" where
  "join sep [] = []"
| "join sep [x] = x"
| "join sep (x # y # ys) = x @ sep @ join sep (y # ys)"

text \<open>The six variable initialisers, in the order of the source; any of them can raise.\<close>

record css_vars =
  v_rotate :: "string option"
  v_skewX :: "string option"
  v_scaleX :: "real option"
  v_scaleY :: "real option"
  v_translateX :: "string option"
  v_translateY :: "string option"

definition toCSSString_vars ::
  "(real \<Rightarrow> string) \<Rightarrow> nat option \<Rightarrow> decomposition \<Rightarrow> error + css_vars" where
  "toCSSString_vars str precision d =
     (let limit = limit_of precision in
      bind_err (if (dRotate d > limit) \<and> (dRotate d < (360 - limit))
                then bind_err (s_fixed precision (dRotate d * r2d)) (\<lambda>v. Inr (Some (str v @ ''deg'')))
                else Inr None) (\<lambda>rotate.
      bind_err (if (dShear d > limit) \<or> (dShear d < - limit)
                then bind_err (s_fixed precision (arctan (dShear d) * r2d)) (\<lambda>v. Inr (Some (str v @ ''deg'')))
                else Inr None) (\<lambda>skewX.
      bind_err (if (dScaleX d > (1 + limit)) \<or> (dScaleX d < (1 - limit))
                then bind_err (s_fixed precision (dScaleX d)) (\<lambda>v. Inr (Some v))
                else Inr None) (\<lambda>scaleX.
      bind_err (if (dScaleY d > (1 + limit)) \<or> (dScaleY d < (1 - limit))
                then bind_err (s_fixed precision (dScaleY d)) (\<lambda>v. Inr (Some v))
                else Inr None) (\<lambda>scaleY.
      bind_err (if (dTranslateX d > limit) \<or> (dTranslateX d < - limit)
                then bind_err (s_fixed precision (dTranslateX d)) (\<lambda>v. Inr (Some (str v @ ''px'')))
                else Inr None) (\<lambda>translateX.
      bind_err (if (dTranslateY d > limit) \<or> (dTranslateY d < - limit)
                then bind_err (s_fixed precision (dTranslateY d)) (\<lambda>v. Inr (Some (str v @ ''px'')))
                else Inr None) (\<lambda>translateY.
        Inr \<lparr>v_rotate = rotate, v_skewX = skewX, v_scaleX = scaleX, v_scaleY = scaleY,
             v_translateX = translateX, v_translateY = translateY\<rparr>)))))))"

text \<open>
  The statements after the initialisers and the array literal that is joined.  \<open>scale\<close> holds
  a number (\<open>Inl\<close>, when \<open>scaleX === scaleY\<close>) or a string (\<open>Inr\<close>).
\<close>

definition truthy_scale :: "(real + string) option \<Rightarrow> bool" where
  "truthy_scale v = (case v of None \<Rightarrow> False | Some (Inl x) \<Rightarrow> x \<noteq> 0 | Some (Inr t) \<Rightarrow> t \<noteq> [])"

definition scale_text :: "(real \<Rightarrow> string) \<Rightarrow> (real + string) option \<Rightarrow> string" where
  "scale_text str v = (case v of None \<Rightarrow> [] | Some (Inl x) \<Rightarrow> str x | Some (Inr t) \<Rightarrow> t)"

definition toCSSString_array :: "(real \<Rightarrow> string) \<Rightarrow> css_vars \<Rightarrow> string list" where
  "toCSSString_array str vars =
     (let rotate = (if v_rotate vars = Some ''360deg'' then None else v_rotate vars);
          both_scales = (v_scaleX vars \<noteq> None \<and> v_scaleY vars \<noteq> None);
          scale = (if both_scales
                   then (if v_scaleX vars = v_scaleY vars
                         then Some (Inl (the (v_scaleX vars)))
                         else Some (Inr (str (the (v_scaleX vars)) @ '','' @ str (the (v_scaleY vars)))))
                   else None);
          scaleX = (if both_scales then None else v_scaleX vars);
          scaleY = (if both_scales then None else v_scaleY vars);
          both_translates = (v_translateX vars \<noteq> None \<and> v_translateY vars \<noteq> None);
          translate = (if both_translates
                       then Some (the (v_translateX vars) @ '','' @ the (v_translateY vars))
                       else None);
          translateX = (if both_translates then None else v_translateX vars);
          translateY = (if both_translates then None else v_translateY vars);
          skewX = v_skewX vars
      in [ (if truthy_str translate then (''translate('' @ the translate @ '')'') else []),
           (if truthy_str translateX then (''translateX('' @ the translateX @ '')'') else []),
           (if truthy_str translateY then (''translateY('' @ the translateY @ '')'') else []),
           (if truthy_str rotate then (''rotate('' @ the rotate @ '')'') else []),
           (if truthy_scale scale then (''scale('' @ scale_text str scale @ '')'') else []),
           (if truthy_str skewX then (''skewX('' @ the skewX @ '')'') else []),
           (if truthy_num scaleX then (''scaleX('' @ str (the scaleX) @ '')'') else []),
           (if truthy_num scaleY then (''scaleY('' @ str (the scaleY) @ '')'') else []) ])"

definition toCSSString_parts ::
  "(real \<Rightarrow> string) \<Rightarrow> nat option \<Rightarrow> decomposition \<Rightarrow> error + string list" where
  "toCSSString_parts str precision d =
     bind_err (toCSSString_vars str precision d) (\<lambda>vars. Inr (toCSSString_array str vars))"

definition toCSSString :: "(real \<Rightarrow> string) \<Rightarrow> nat option \<Rightarrow> neo \<Rightarrow> error + string" where
  "toCSSString str precision m =
     (case decompose m of
        Some d \<Rightarrow> bind_err (toCSSString_parts str precision d) (\<lambda>parts. Inr (join '' '' parts))
      | None \<Rightarrow> Inr (''matrix('' @ join '','' (map str (to_list m)) @ '')''))"

text \<open>
  \<open>decimal_string\<close> is an instance of \<open>str\<close> for the examples: plain decimal notation without
  trailing zeros, as JavaScript prints a decimal fraction of magnitude between \<open>1e-6\<close> and
  \<open>1e21\<close>.  Outside that range, and for numbers with more than 100 decimal places, it is not
  JavaScript's conversion.
\<close>

definition digit_char :: "nat \<Rightarrow> char" where
  "digit_char n = ''0123456789'' ! n"

fun digits_of :: "nat \<Rightarrow> string" where
  "digits_of n = (if n < 10 then [digit_char n] else digits_of (n div 10) @ [digit_char (n mod 10)])"

fun frac_digits :: "nat \<Rightarrow> real \<Rightarrow> string" where
  "frac_digits fuel y =
     (if fuel = 0 \<or> y = 0 then []
      else digit_char (nat \<lfloor>y * 10\<rfloor>) # frac_digits (fuel - 1) (y * 10 - real_of_int \<lfloor>y * 10\<rfloor>))"

definition decimal_string :: "real \<Rightarrow> string" where
  "decimal_string x =
     (let whole = nat \<lfloor>\<bar>x\<bar>\<rfloor>;
          fraction = frac_digits 100 (\<bar>x\<bar> - real whole)
      in (if x < 0 then ''-'' else []) @ digits_of whole
         @ (if fraction = [] then [] else ''.'' @ fraction))"


declare digits_of.simps [simp del] frac_digits.simps [simp del]

section \<open>Instances on a heap\<close>

text \<open>
  The functions above compute on arrays of finite numbers.  This layer says what a method
  call reads, allocates and assigns.  A Neo instance has the fields \<open>elements\<close> and
  \<open>decomposed\<close>; the heap is the list of all instances and a reference is an index into it.

  An argument is a JavaScript value: \<open>None\<close> is \<open>undefined\<close> (an argument that was not passed),
  \<open>Some n\<close> a Number.  \<open>truthy\<close> is the test of \<open>||\<close>; \<open>to_num\<close> is the conversion applied by
  an arithmetic operator (\<open>undefined\<close> becomes \<open>NaN\<close>); \<open>neg_js\<close> is unary minus, \<open>times_js\<close> the
  product with a finite constant, \<open>math_js\<close> a function of \<open>Math\<close> (\<open>cos\<close>, \<open>sin\<close>, \<open>tan\<close>), which
  is \<open>NaN\<close> outside the finite numbers.
\<close>

type_synonym arg = "number option"

definition truthy :: "arg \<Rightarrow> bool" where
  "truthy v = (case v of Some (Finite x) \<Rightarrow> x \<noteq> 0 | Some Infinite \<Rightarrow> True | _ \<Rightarrow> False)"

definition to_num :: "arg \<Rightarrow> number" where
  "to_num v = (case v of None \<Rightarrow> NaN | Some n \<Rightarrow> n)"

definition neg_js :: "arg \<Rightarrow> arg" where
  "neg_js v = (case to_num v of Finite x \<Rightarrow> Some (Finite (- x)) | Infinite \<Rightarrow> Some Infinite
               | NaN \<Rightarrow> Some NaN)"

definition times_js :: "number \<Rightarrow> real \<Rightarrow> number" where
  "times_js n c = (case n of Finite x \<Rightarrow> Finite (x * c)
                   | Infinite \<Rightarrow> (if c = 0 then NaN else Infinite) | NaN \<Rightarrow> NaN)"

definition math_js :: "(real \<Rightarrow> real) \<Rightarrow> number \<Rightarrow> number" where
  "math_js fn n = (case n of Finite x \<Rightarrow> Finite (fn x) | _ \<Rightarrow> NaN)"

text \<open>
  An \<open>elements\<close> array with an element that is not a finite number is \<open>NonFiniteElements\<close>.
  Nothing is lost for \<open>multiply\<close> and \<open>inverse\<close>: every element of either operand enters a
  product or a sum of some element of the result, and a product or sum with an operand that is
  not finite is not finite; so the result is \<open>NonFiniteElements\<close> again.

  The field \<open>decomposed\<close> is never assigned by \<open>new Neo(a, b, c, d, e, f)\<close>; \<open>reset\<close> stores the
  components of the identity (without \<open>rotationRads\<close> and \<open>rotationDegs\<close>), \<open>set\<close> an empty
  object, and the method \<open>decompose\<close> the value of \<open>Neo.decompose(this)\<close>.  For elements that
  are not all finite that value is \<open>false\<close> or a record with a component that is not finite:
  \<open>DecomposedNonFinite\<close>.
\<close>

datatype elements_field = Elements neo | NonFiniteElements

datatype decomposed_field =
    NotAssigned
  | ResetRecord
  | EmptyObject
  | Decomposed "decomposition option"
  | DecomposedNonFinite

record neo_instance =
  elements :: elements_field
  decomposed :: decomposed_field

type_synonym ref = nat
type_synonym heap = "neo_instance list"

definition alloc :: "heap \<Rightarrow> neo_instance \<Rightarrow> heap \<times> ref" where
  "alloc h obj = (h @ [obj], length h)"

definition finite_of :: "arg \<Rightarrow> real option" where
  "finite_of v = (case v of Some (Finite x) \<Rightarrow> Some x | _ \<Rightarrow> None)"

definition nth_arg :: "arg list \<Rightarrow> nat \<Rightarrow> arg" where
  "nth_arg args i = (if i < length args then args ! i else None)"

definition numbers_elements :: "arg list \<Rightarrow> elements_field" where
  "numbers_elements args =
     (case those (map (\<lambda>i. finite_of (nth_arg args i)) [0..<6]) of
        Some [a, b, c, d, e, f] \<Rightarrow> Elements (elems_of a b c d e f)
      | _ \<Rightarrow> NonFiniteElements)"

definition Neo_reset :: "heap \<Rightarrow> ref \<Rightarrow> heap \<times> ref" where
  "Neo_reset h this =
     (h[this := \<lparr>elements = Elements identity, decomposed = ResetRecord\<rparr>], this)"

definition Neo_set :: "heap \<Rightarrow> ref \<Rightarrow> arg list \<Rightarrow> heap \<times> ref" where
  "Neo_set h this args =
     (h[this := \<lparr>elements = numbers_elements args, decomposed = EmptyObject\<rparr>], this)"

text \<open>
  The constructor with six numbers or with none.  (The third form, an array of length 6, keeps
  the caller's array as \<open>elements\<close>; arrays are not objects of this heap.)
\<close>

definition new_Neo :: "heap \<Rightarrow> arg list \<Rightarrow> heap \<times> ref" where
  "new_Neo h args =
     (if nth_arg args 0 \<noteq> None
      then alloc h \<lparr>elements = numbers_elements args, decomposed = NotAssigned\<rparr>
      else alloc h \<lparr>elements = Elements identity, decomposed = ResetRecord\<rparr>)"

text \<open>
  \<open>multiply(o)\<close> reads \<open>o.elements\<close> when \<open>o\<close> is an instance and its own \<open>arguments\<close> otherwise;
  \<open>m3 = new Neo()\<close> is a new instance whose \<open>elements\<close> are then assigned.
\<close>

datatype multiply_arg = Instance ref | Numbers "arg list"

definition multiply_field :: "elements_field \<Rightarrow> elements_field \<Rightarrow> elements_field" where
  "multiply_field f1 f2 =
     (case (f1, f2) of
        (Elements m1, Elements m2) \<Rightarrow> Elements (multiply m1 m2)
      | _ \<Rightarrow> NonFiniteElements)"

definition Neo_multiply :: "heap \<Rightarrow> ref \<Rightarrow> multiply_arg \<Rightarrow> heap \<times> ref" where
  "Neo_multiply h this o_arg =
     (let m1 = elements (h ! this);
          m2 = (case o_arg of Instance other \<Rightarrow> elements (h ! other)
                            | Numbers args \<Rightarrow> numbers_elements args);
          (h1, m3) = new_Neo h []
      in (h1[m3 := (h1 ! m3)\<lparr>elements := multiply_field m1 m2\<rparr>], m3))"

definition num :: "real \<Rightarrow> arg" where
  "num x = Some (Finite x)"

definition Neo_translate :: "heap \<Rightarrow> ref \<Rightarrow> arg \<Rightarrow> arg \<Rightarrow> heap \<times> ref" where
  "Neo_translate h this tx ty = Neo_multiply h this (Numbers [num 1, num 0, num 0, num 1, tx, ty])"

definition Neo_translateX :: "heap \<Rightarrow> ref \<Rightarrow> arg \<Rightarrow> heap \<times> ref" where
  "Neo_translateX h this tx = Neo_multiply h this (Numbers [num 1, num 0, num 0, num 1, tx, num 0])"

definition Neo_translateY :: "heap \<Rightarrow> ref \<Rightarrow> arg \<Rightarrow> heap \<times> ref" where
  "Neo_translateY h this ty = Neo_multiply h this (Numbers [num 1, num 0, num 0, num 1, num 0, ty])"

function Neo_scale :: "heap \<Rightarrow> ref \<Rightarrow> arg \<Rightarrow> arg \<Rightarrow> arg \<Rightarrow> arg \<Rightarrow> heap \<times> ref" where
  "Neo_scale h this sx sy None oy =
     (let sy = (if truthy sy then sy else sx)
      in Neo_multiply h this (Numbers [sx, num 0, num 0, sy, num 0, num 0]))"
| "Neo_scale h this sx sy (Some ox) oy =
     (let sy = (if truthy sy then sy else sx);
          (h1, r1) = Neo_translate h this (neg_js (Some ox)) (neg_js oy);
          (h2, r2) = Neo_scale h1 r1 sx sy None None
      in Neo_translate h2 r2 (Some ox) oy)"
  by pat_completeness auto
termination
  by (relation "measure (\<lambda>(h, this, sx, sy, ox, oy). case ox of None \<Rightarrow> 0 | Some _ \<Rightarrow> Suc 0)") auto

definition Neo_scaleX :: "heap \<Rightarrow> ref \<Rightarrow> arg \<Rightarrow> heap \<times> ref" where
  "Neo_scaleX h this sx = Neo_multiply h this (Numbers [sx, num 0, num 0, num 1, num 0, num 0])"

definition Neo_scaleY :: "heap \<Rightarrow> ref \<Rightarrow> arg \<Rightarrow> heap \<times> ref" where
  "Neo_scaleY h this sy = Neo_multiply h this (Numbers [num 1, num 0, num 0, sy, num 0, num 0])"

definition Neo_rotateRad :: "heap \<Rightarrow> ref \<Rightarrow> arg \<Rightarrow> heap \<times> ref" where
  "Neo_rotateRad h this r =
     (let cosR = math_js cos (to_num r); sinR = math_js sin (to_num r)
      in Neo_multiply h this
           (Numbers [Some cosR, Some sinR, neg_js (Some sinR), Some cosR, num 0, num 0]))"

function Neo_rotate :: "heap \<Rightarrow> ref \<Rightarrow> arg \<Rightarrow> arg \<Rightarrow> arg \<Rightarrow> heap \<times> ref" where
  "Neo_rotate h this r None oy = Neo_rotateRad h this (Some (times_js (to_num r) deg2rad))"
| "Neo_rotate h this r (Some ox) oy =
     (let (h1, r1) = Neo_translate h this (neg_js (Some ox)) (neg_js oy);
          (h2, r2) = Neo_rotate h1 r1 r None None
      in Neo_translate h2 r2 (Some ox) oy)"
  by pat_completeness auto
termination
  by (relation "measure (\<lambda>(h, this, r, ox, oy). case ox of None \<Rightarrow> 0 | Some _ \<Rightarrow> Suc 0)") auto

definition Neo_skewXRad :: "heap \<Rightarrow> ref \<Rightarrow> arg \<Rightarrow> heap \<times> ref" where
  "Neo_skewXRad h this ax =
     Neo_multiply h this (Numbers [num 1, num 0, Some (math_js tan (to_num ax)), num 1, num 0, num 0])"

definition Neo_skewYRad :: "heap \<Rightarrow> ref \<Rightarrow> arg \<Rightarrow> heap \<times> ref" where
  "Neo_skewYRad h this ay =
     Neo_multiply h this (Numbers [num 1, Some (math_js tan (to_num ay)), num 0, num 1, num 0, num 0])"

definition Neo_skewX :: "heap \<Rightarrow> ref \<Rightarrow> arg \<Rightarrow> heap \<times> ref" where
  "Neo_skewX h this ax = Neo_skewXRad h this (Some (times_js (to_num ax) deg2rad))"

definition Neo_skewY :: "heap \<Rightarrow> ref \<Rightarrow> arg \<Rightarrow> heap \<times> ref" where
  "Neo_skewY h this ay = Neo_skewYRad h this (Some (times_js (to_num ay) deg2rad))"

text \<open>
  \<open>inverse\<close> creates \<open>inverted = new Neo()\<close> and assigns the six elements of its array; the
  method \<open>decompose\<close> assigns the receiver's field \<open>decomposed\<close> and returns the value.
\<close>

definition all_finite :: "number elems \<Rightarrow> neo option" where
  "all_finite m =
     (case to_list m of
        [Finite a, Finite b, Finite c, Finite d, Finite e, Finite f] \<Rightarrow> Some (elems_of a b c d e f)
      | _ \<Rightarrow> None)"

definition inverse_field :: "elements_field \<Rightarrow> elements_field" where
  "inverse_field f =
     (case f of
        Elements m \<Rightarrow> (case all_finite (inverse_elements m) of
                         Some i \<Rightarrow> Elements i | None \<Rightarrow> NonFiniteElements)
      | NonFiniteElements \<Rightarrow> NonFiniteElements)"

definition Neo_inverse :: "heap \<Rightarrow> ref \<Rightarrow> heap \<times> ref" where
  "Neo_inverse h this =
     (let m = elements (h ! this);
          (h1, inverted) = new_Neo h []
      in (h1[inverted := (h1 ! inverted)\<lparr>elements := inverse_field m\<rparr>], inverted))"

definition decompose_field :: "elements_field \<Rightarrow> decomposed_field" where
  "decompose_field f =
     (case f of Elements m \<Rightarrow> Decomposed (decompose m) | NonFiniteElements \<Rightarrow> DecomposedNonFinite)"

definition Neo_decompose :: "heap \<Rightarrow> ref \<Rightarrow> heap \<times> decomposed_field" where
  "Neo_decompose h this =
     (let result = decompose_field (elements (h ! this))
      in (h[this := (h ! this)\<lparr>decomposed := result\<rparr>], result))"

section \<open>fromString\<close>

text \<open>
  The pattern is \<open>(translate|translateX|...|matrix)\\(([^\\)]+)\\)\<close> with the flags \<open>gi\<close>.  After
  a name the pattern requires \<open>(\<close>, so at most one alternative can match at a position;
  \<open>[^\\)]+\<close> takes the characters up to the next \<open>)\<close>, at least one.  \<open>exec_all\<close> is the sequence
  of matches of the \<open>while\<close> loop, each with its groups 1 and 2: after a match the search goes on
  behind it, otherwise one character further.
\<close>

definition transformTypes :: "string list" where
  "transformTypes = [''translate'', ''translateX'', ''translateY'', ''scale'', ''scaleX'',
                     ''scaleY'', ''rotate'', ''skewX'', ''skewY'', ''matrix'']"

definition toLowerCase_char :: "char \<Rightarrow> char" where
  "toLowerCase_char ch =
     (case map_of (zip ''ABCDEFGHIJKLMNOPQRSTUVWXYZ'' ''abcdefghijklmnopqrstuvwxyz'') ch of
        Some l \<Rightarrow> l | None \<Rightarrow> ch)"

definition toLowerCase :: "string \<Rightarrow> string" where
  "toLowerCase t = map toLowerCase_char t"

definition starts_with :: "string \<Rightarrow> string \<Rightarrow> bool" where
  "starts_with p t = (take (length p) t = p)"

definition starts_with_ci :: "string \<Rightarrow> string \<Rightarrow> bool" where
  "starts_with_ci p t =
     (length p \<le> length t \<and> toLowerCase (take (length p) t) = toLowerCase p)"

fun replace_first :: "string \<Rightarrow> string \<Rightarrow> string \<Rightarrow> string" where
  "replace_first p by [] = (if p = [] then by else [])"
| "replace_first p by (ch # t) =
     (if starts_with p (ch # t) then by @ drop (length p) (ch # t)
      else ch # replace_first p by t)"

text \<open>One attempt of the pattern at the start of the text.\<close>

definition match_here :: "string \<Rightarrow> (string \<times> string \<times> string) option" where
  "match_here t =
     (case filter (\<lambda>name. starts_with_ci (name @ ''('') t) transformTypes of
        [] \<Rightarrow> None
      | name # _ \<Rightarrow>
          (let after = drop (length name + 1) t;
               inner = takeWhile (\<lambda>ch. ch \<noteq> CHR '')'') after;
               rest = drop (length inner) after
           in if inner \<noteq> [] \<and> rest \<noteq> []
              then Some (take (length name) t, inner, tl rest)
              else None))"

lemma match_here_shorter:
  "match_here t = Some (name, inner, rest) \<Longrightarrow> length rest < length t"
  by (auto simp add: match_here_def Let_def split: list.splits if_splits)

function exec_all :: "string \<Rightarrow> (string \<times> string) list" where
  "exec_all [] = []"
| "exec_all (ch # t) =
     (case match_here (ch # t) of
        Some (name, inner, rest) \<Rightarrow> (name, inner) # exec_all rest
      | None \<Rightarrow> exec_all t)"
  by pat_completeness auto
termination
  by (relation "measure length") (auto dest: match_here_shorter)

declare exec_all.simps [simp del]

text \<open>
  \<open>getParameters\<close>: \<open>split(',')\<close>, then for each piece the first \<open>px\<close> is removed, the first
  match of \<open>/grad|rad|deg|turn/\<close> (leftmost, alternatives in this order) is looked for and
  removed, and the rest is converted by the unary plus.  That conversion of a string to a
  number is the parameter \<open>to_number\<close>.  The three factors are written as in the source.
\<close>

fun split_on :: "char \<Rightarrow> string \<Rightarrow> string list" where
  "split_on sep [] = [[]]"
| "split_on sep (ch # t) =
     (case split_on sep t of
        [] \<Rightarrow> [[ch]]
      | w # ws \<Rightarrow> if ch = sep then [] # w # ws else (ch # w) # ws)"

definition angleUnits :: "string list" where
  "angleUnits = [''grad'', ''rad'', ''deg'', ''turn'']"

fun exec_angleUnits :: "string \<Rightarrow> (string \<times> string \<times> string) option" where
  "exec_angleUnits [] = None"
| "exec_angleUnits (ch # t) =
     (case filter (\<lambda>u. starts_with u (ch # t)) angleUnits of
        u # _ \<Rightarrow> Some ([], u, drop (length u) (ch # t))
      | [] \<Rightarrow> (case exec_angleUnits t of
                 Some (before, u, after) \<Rightarrow> Some (ch # before, u, after)
               | None \<Rightarrow> None))"

definition rad2deg :: real where
  "rad2deg = (180 / pi)"

definition grad2deg :: real where
  "grad2deg = (200 / pi)"

definition turn2deg :: real where
  "turn2deg = 360"

definition convert_angle :: "string \<Rightarrow> number \<Rightarrow> number" where
  "convert_angle angleUnit angle =
     (let u = toLowerCase angleUnit
      in if u = ''rad'' then times_js angle rad2deg
         else if u = ''grad'' then times_js angle grad2deg
         else if u = ''turn'' then times_js angle turn2deg
         else angle)"

definition getParameter :: "(string \<Rightarrow> number) \<Rightarrow> string \<Rightarrow> number" where
  "getParameter to_number piece =
     (let parameterString = replace_first ''px'' '''' piece
      in case exec_angleUnits parameterString of
           Some (before, angleUnit, after) \<Rightarrow> convert_angle angleUnit (to_number (before @ after))
         | None \<Rightarrow> to_number parameterString)"

definition getParameters :: "(string \<Rightarrow> number) \<Rightarrow> string \<Rightarrow> number list" where
  "getParameters to_number string = map (getParameter to_number) (split_on CHR '','' string)"

text \<open>
  The loop body: the method named by \<open>type\<close> is called on \<open>matrix\<close> with the parameters as
  positional arguments (\<open>multiply\<close> for \<open>matrix\<close>).  The value the call returns is not assigned to
  anything.
\<close>

definition type_of_match :: "string \<Rightarrow> string" where
  "type_of_match name =
     replace_first ''iX'' ''ix'' (replace_first ''y'' ''Y'' (replace_first ''x'' ''X'' (toLowerCase name)))"

definition apply_method :: "heap \<Rightarrow> ref \<Rightarrow> string \<Rightarrow> arg list \<Rightarrow> heap \<times> ref" where
  "apply_method h matrix type args =
     (if type = ''matrix'' then Neo_multiply h matrix (Numbers args)
      else if type = ''translate'' then Neo_translate h matrix (nth_arg args 0) (nth_arg args 1)
      else if type = ''translateX'' then Neo_translateX h matrix (nth_arg args 0)
      else if type = ''translateY'' then Neo_translateY h matrix (nth_arg args 0)
      else if type = ''scale'' then
        Neo_scale h matrix (nth_arg args 0) (nth_arg args 1) (nth_arg args 2) (nth_arg args 3)
      else if type = ''scaleX'' then Neo_scaleX h matrix (nth_arg args 0)
      else if type = ''scaleY'' then Neo_scaleY h matrix (nth_arg args 0)
      else if type = ''rotate'' then
        Neo_rotate h matrix (nth_arg args 0) (nth_arg args 1) (nth_arg args 2)
      else if type = ''skewX'' then Neo_skewX h matrix (nth_arg args 0)
      else Neo_skewY h matrix (nth_arg args 0))"

fun fromString_loop ::
  "(string \<Rightarrow> number) \<Rightarrow> (string \<times> string) list \<Rightarrow> heap \<Rightarrow> ref \<Rightarrow> heap" where
  "fromString_loop to_number [] h matrix = h"
| "fromString_loop to_number ((name, inner) # rest) h matrix =
     (let type = type_of_match name;
          parameters = getParameters to_number inner;
          (h1, discarded) = apply_method h matrix type (map Some parameters)
      in fromString_loop to_number rest h1 matrix)"

definition fromString :: "(string \<Rightarrow> number) \<Rightarrow> heap \<Rightarrow> string \<Rightarrow> heap \<times> ref" where
  "fromString to_number h string =
     (let (h0, matrix) = new_Neo h []
      in (fromString_loop to_number (exec_all string) h0 matrix, matrix))"

text \<open>
  \<open>decimal_number\<close> is an instance of \<open>to_number\<close> for the examples.  It reads an optional
  \<open>-\<close>, digits and an optional fraction, and gives 0 for the empty string, as the unary plus
  does on such texts.  It is not the whole conversion: any other text (a \<open>+\<close> sign, white space,
  an exponent, \<open>Infinity\<close>, a hexadecimal literal) is \<open>NaN\<close> here.
\<close>

definition digit_value :: "char \<Rightarrow> nat option" where
  "digit_value ch = map_of (zip ''0123456789'' [0..<10]) ch"

fun digits_value :: "nat \<Rightarrow> string \<Rightarrow> nat option" where
  "digits_value acc [] = Some acc"
| "digits_value acc (ch # t) =
     (case digit_value ch of Some v \<Rightarrow> digits_value (acc * 10 + v) t | None \<Rightarrow> None)"

definition unsigned_decimal :: "string \<Rightarrow> real option" where
  "unsigned_decimal t =
     (let whole = takeWhile (\<lambda>ch. ch \<noteq> CHR ''.'') t;
          rest = drop (length whole) t;
          fraction = (if rest = [] then [] else tl rest)
      in if whole @ fraction = [] then None
         else case (digits_value 0 whole, digits_value 0 fraction) of
                (Some w, Some f) \<Rightarrow> Some (real w + real f / 10 ^ length fraction)
              | _ \<Rightarrow> None)"

definition decimal_number :: "string \<Rightarrow> number" where
  "decimal_number t =
     (if t = [] then Finite 0
      else case (if hd t = CHR ''-'' then map_option uminus (unsigned_decimal (tl t))
                 else unsigned_decimal t) of
             Some x \<Rightarrow> Finite x | None \<Rightarrow> NaN)"

section \<open>Frames\<close>

text \<open>
  \<open>extends h h'\<close>: the heap \<open>h'\<close> is \<open>h\<close> followed by new instances, so every instance of \<open>h\<close> has
  all its fields unchanged in \<open>h'\<close>.  \<open>returns_new\<close>: moreover the reference returned is one of
  the new instances.
\<close>

definition extends :: "heap \<Rightarrow> heap \<Rightarrow> bool" where
  "extends h h' = (take (length h) h' = h)"

definition returns_new :: "heap \<Rightarrow> heap \<times> ref \<Rightarrow> bool" where
  "returns_new h res = (extends h (fst res) \<and> length h \<le> snd res \<and> snd res < length (fst res))"

section \<open>Results\<close>

lemma elems_of_sel [simp]:
  "el0 (elems_of a b c d e f) = a" "el1 (elems_of a b c d e f) = b"
  "el2 (elems_of a b c d e f) = c" "el3 (elems_of a b c d e f) = d"
  "el4 (elems_of a b c d e f) = e" "el5 (elems_of a b c d e f) = f"
  by (simp_all add: elems_of_def)

lemma elems_of_eq_iff [simp]:
  "elems_of a b c d e f = elems_of a' b' c' d' e' f' \<longleftrightarrow>
     a = a' \<and> b = b' \<and> c = c' \<and> d = d' \<and> e = e' \<and> f = f'"
  by (simp add: elems_of_def)

lemma elems_of_eta: "elems_of (el0 m) (el1 m) (el2 m) (el3 m) (el4 m) (el5 m) = (m :: 'n elems)"
  by (simp add: elems_of_def)

subsection \<open>C7: when decompose fails\<close>

text \<open>
  C7.  \<open>decompose\<close> returns the failure value exactly when \<open>a * d - b * c\<close> is 0, for every
  matrix; the matrix \<open>(1, 0, 0, 0, 0, 0)\<close> is such a case, and every matrix with another
  determinant gets a component record.
\<close>

theorem decompose_fails_iff:
  "(decompose m = None) = (el0 m * el3 m - el1 m * el2 m = 0)
   \<and> decompose (elems_of 1 0 0 0 0 0) = None
   \<and> (el0 m * el3 m - el1 m * el2 m \<noteq> 0 \<longrightarrow>
        (\<exists>r. decompose m = Some r \<and> dTranslateX r = el4 m \<and> dTranslateY r = el5 m))"
  by (auto simp add: decompose_def Let_def)

theorem decompose_fails_iff_witness:
  "el0 (elems_of 2 0 0 2 50 50) * el3 (elems_of 2 0 0 2 50 50)
     - el1 (elems_of 2 0 0 2 50 50) * el2 (elems_of 2 0 0 2 50 50) \<noteq> (0::real)
   \<and> decompose (elems_of 2 0 0 2 50 50) \<noteq> None
   \<and> (\<exists>r. decompose (elems_of 2 0 0 2 50 50) = Some r \<and> dTranslateX r = 50)"
  using decompose_fails_iff [of "elems_of 2 0 0 2 50 50"] by auto

subsection \<open>C8: scale without a pivot\<close>

lemma scale_no_pivot:
  "scale this sx None None = multiply this (elems_of sx 0 0 sx 0 0)"
  "sy \<noteq> 0 \<Longrightarrow> scale this sx (Some sy) None = multiply this (elems_of sx 0 0 sy 0 0)"
  by (simp_all add: or_default_def)

text \<open>
  C8 at \<open>scale(2, 0)\<close>.  The second argument is passed, and is 0; \<open>sy || sx\<close> takes it for
  missing, so the receiver is multiplied by \<open>[2, 0, 0, 2, 0, 0]\<close>: on the identity the result
  is \<open>[2, 0, 0, 2, 0, 0]\<close>, where the primitive \<open>[2, 0, 0, 0, 0, 0]\<close> of the claim would give
  \<open>[2, 0, 0, 0, 0, 0]\<close>.
\<close>

theorem scale_zero_sy_replaced:
  "scale this 2 (Some 0) None = multiply this (elems_of 2 0 0 2 0 0)
   \<and> scale identity 2 (Some 0) None = elems_of 2 0 0 2 0 0
   \<and> multiply identity (elems_of 2 0 0 0 0 0) = elems_of 2 0 0 0 0 0
   \<and> scale identity 2 (Some 0) None \<noteq> multiply identity (elems_of 2 0 0 0 0 0)"
  by (simp add: or_default_def multiply_def identity_def)

subsection \<open>C3: inverse\<close>

text \<open>
  C3, as stated, fails at the singular matrix \<open>(1, 0, 0, 0, 0, 0)\<close>: \<open>inverse\<close> raises nothing
  and returns an instance whose elements are \<open>NaN\<close> and \<open>Infinity\<close>.
\<close>

theorem inverse_singular_counterexample:
  "inverse_neo (elems_of 1 0 0 0 0 0) \<noteq> Inl SingularMatrix
   \<and> inverse_neo (elems_of 1 0 0 0 0 0) = Inr (elems_of NaN NaN NaN Infinite NaN NaN)"
  by (simp add: inverse_neo_def inverse_elements_def divide_js_def)

text \<open>
  C3, amended.  \<open>inverse\<close> never fails.  For a determinant \<open>a * d - c * b\<close> other than 0 it
  returns the closed-form inverse
  \<open>[d / det, - b / det, - c / det, a / det, (c * f - e * d) / det, (e * b - a * f) / det]\<close>,
  which multiplied with the matrix on either side gives the identity.  For a determinant
  equal to 0 it still returns an instance: each of its elements is \<open>NaN\<close> or infinite.
\<close>

theorem inverse_never_fails:
  "(\<exists>r. inverse_neo m = Inr r)
   \<and> (el0 m * el3 m - el2 m * el1 m \<noteq> 0 \<longrightarrow>
        (\<exists>inv. inverse_neo m = Inr (finite_elems inv)
           \<and> inv = elems_of (el3 m / (el0 m * el3 m - el2 m * el1 m))
                            (- el1 m / (el0 m * el3 m - el2 m * el1 m))
                            (- el2 m / (el0 m * el3 m - el2 m * el1 m))
                            (el0 m / (el0 m * el3 m - el2 m * el1 m))
                            ((el2 m * el5 m - el4 m * el3 m) / (el0 m * el3 m - el2 m * el1 m))
                            ((el4 m * el1 m - el0 m * el5 m) / (el0 m * el3 m - el2 m * el1 m))
           \<and> multiply m inv = identity \<and> multiply inv m = identity))
   \<and> (el0 m * el3 m - el2 m * el1 m = 0 \<longrightarrow>
        (\<exists>r. inverse_neo m = Inr r \<and> list_all (\<lambda>x. x = NaN \<or> x = Infinite) (to_list r)))"
proof (intro conjI impI)
  show "\<exists>r. inverse_neo m = Inr r"
    by (simp add: inverse_neo_def)
next
  assume det: "el0 m * el3 m - el2 m * el1 m \<noteq> 0"
  define dt where "dt = el0 m * el3 m - el2 m * el1 m"
  define inv where "inv = elems_of (el3 m / dt) (- el1 m / dt) (- el2 m / dt) (el0 m / dt)
     ((el2 m * el5 m - el4 m * el3 m) / dt) ((el4 m * el1 m - el0 m * el5 m) / dt)"
  have nz: "dt \<noteq> 0" using det by (simp add: dt_def)
  have r: "inverse_neo m = Inr (finite_elems inv)"
    using nz by (simp add: inverse_neo_def inverse_elements_def Let_def divide_js_def finite_elems_def inv_def dt_def)
  have l: "multiply m inv = identity"
    using nz unfolding multiply_def identity_def inv_def Let_def elems_of_sel elems_of_eq_iff
    by (intro conjI) (simp_all add: field_simps, simp_all add: dt_def algebra_simps)
  have l': "multiply inv m = identity"
    using nz unfolding multiply_def identity_def inv_def Let_def elems_of_sel elems_of_eq_iff
    by (intro conjI) (simp_all add: field_simps, simp_all add: dt_def algebra_simps)
  show "\<exists>inv. inverse_neo m = Inr (finite_elems inv)
           \<and> inv = elems_of (el3 m / (el0 m * el3 m - el2 m * el1 m))
                            (- el1 m / (el0 m * el3 m - el2 m * el1 m))
                            (- el2 m / (el0 m * el3 m - el2 m * el1 m))
                            (el0 m / (el0 m * el3 m - el2 m * el1 m))
                            ((el2 m * el5 m - el4 m * el3 m) / (el0 m * el3 m - el2 m * el1 m))
                            ((el4 m * el1 m - el0 m * el5 m) / (el0 m * el3 m - el2 m * el1 m))
           \<and> multiply m inv = identity \<and> multiply inv m = identity"
    using r l l' unfolding inv_def dt_def by blast
next
  assume "el0 m * el3 m - el2 m * el1 m = 0"
  then show "\<exists>r. inverse_neo m = Inr r \<and> list_all (\<lambda>x. x = NaN \<or> x = Infinite) (to_list r)"
    by (simp add: inverse_neo_def inverse_elements_def Let_def divide_js_def to_list_def)
qed

theorem inverse_never_fails_witness:
  "el0 (elems_of 2 0 0 2 50 50) * el3 (elems_of 2 0 0 2 50 50)
     - el2 (elems_of 2 0 0 2 50 50) * el1 (elems_of 2 0 0 2 50 50) \<noteq> (0::real)
   \<and> inverse_neo (elems_of 2 0 0 2 50 50) = Inr (finite_elems (elems_of (1/2) 0 0 (1/2) (- 25) (- 25)))
   \<and> multiply (elems_of 2 0 0 2 50 50) (elems_of (1/2) 0 0 (1/2) (- 25) (- 25)) = identity
   \<and> el0 (elems_of 1 0 0 0 0 0) * el3 (elems_of 1 0 0 0 0 0)
     - el2 (elems_of 1 0 0 0 0 0) * el1 (elems_of 1 0 0 0 0 0) = (0::real)
   \<and> (\<exists>r. inverse_neo (elems_of 1 0 0 0 0 0) = Inr r
        \<and> list_all (\<lambda>x. x = NaN \<or> x = Infinite) (to_list r))"
  using inverse_never_fails [of "elems_of 2 0 0 2 50 50"]
        inverse_never_fails [of "elems_of 1 0 0 0 0 0"]
  by simp

subsection \<open>C10: equals and a tolerance of 0\<close>

lemma equals_loop_False [simp]: "equals_loop es m t is False = False"
  by (induction "is") simp_all

lemma equals_loop_iff:
  "equals_loop es m t is True = (\<forall>i \<in> set is. \<bar>es ! i - m ! i\<bar> \<le> t)"
proof (induction "is")
  case Nil
  then show ?case by simp
next
  case (Cons i "is")
  show ?case
  proof (cases "es ! i > m ! i + t \<or> es ! i < m ! i - t")
    case True
    then have "\<not> \<bar>es ! i - m ! i\<bar> \<le> t" by auto
    with True show ?thesis by (simp add: Let_def)
  next
    case False
    then have "\<bar>es ! i - m ! i\<bar> \<le> t" by auto
    with False Cons.IH show ?thesis by (simp add: Let_def)
  qed
qed

lemma upt_6: "[0..<6] = [0, 1, 2, 3, 4, 5]"
  by (simp add: upt_rec)

lemma equals_iff:
  "equals this m tolerance =
     (let t = or_default tolerance default_tolerance
      in \<bar>el0 this - el0 m\<bar> \<le> t \<and> \<bar>el1 this - el1 m\<bar> \<le> t \<and> \<bar>el2 this - el2 m\<bar> \<le> t
       \<and> \<bar>el3 this - el3 m\<bar> \<le> t \<and> \<bar>el4 this - el4 m\<bar> \<le> t \<and> \<bar>el5 this - el5 m\<bar> \<le> t)"
  by (simp add: equals_def equals_loop_iff upt_6 to_list_def Let_def)

text \<open>
  C10.  A tolerance of 0 is falsy, so \<open>equals\<close> called with it compares with the default
  \<open>1e-7\<close>, as if no tolerance had been passed: the result is the one of the call without a
  tolerance, and it is true exactly when all six elements differ by at most \<open>1e-7\<close>.  So
  matrices whose elements all differ by less than \<open>1e-7\<close> are reported equal under a
  requested tolerance of 0, and matrices with an element that differs by more are not.
\<close>

theorem equals_zero_tolerance:
  "equals this m (Some 0) = equals this m None
   \<and> equals this m (Some 0)
       = (\<bar>el0 this - el0 m\<bar> \<le> 1 / 10 ^ 7 \<and> \<bar>el1 this - el1 m\<bar> \<le> 1 / 10 ^ 7
          \<and> \<bar>el2 this - el2 m\<bar> \<le> 1 / 10 ^ 7 \<and> \<bar>el3 this - el3 m\<bar> \<le> 1 / 10 ^ 7
          \<and> \<bar>el4 this - el4 m\<bar> \<le> 1 / 10 ^ 7 \<and> \<bar>el5 this - el5 m\<bar> \<le> 1 / 10 ^ 7)
   \<and> (\<bar>el0 this - el0 m\<bar> < 1 / 10 ^ 7 \<and> \<bar>el1 this - el1 m\<bar> < 1 / 10 ^ 7
      \<and> \<bar>el2 this - el2 m\<bar> < 1 / 10 ^ 7 \<and> \<bar>el3 this - el3 m\<bar> < 1 / 10 ^ 7
      \<and> \<bar>el4 this - el4 m\<bar> < 1 / 10 ^ 7 \<and> \<bar>el5 this - el5 m\<bar> < 1 / 10 ^ 7
      \<longrightarrow> equals this m (Some 0))"
  by (simp add: equals_iff or_default_def default_tolerance_def Let_def)

theorem equals_zero_tolerance_witness:
  "\<bar>el0 (elems_of 1 0 0 1 0 0) - el0 (elems_of (1 + 5 / 10 ^ 8) 0 0 1 0 0)\<bar> < (1 / 10 ^ 7 :: real)
   \<and> elems_of 1 0 0 1 0 0 \<noteq> elems_of (1 + 5 / 10 ^ 8 :: real) 0 0 1 0 0
   \<and> equals (elems_of 1 0 0 1 0 0) (elems_of (1 + 5 / 10 ^ 8) 0 0 1 0 0) (Some 0)
   \<and> \<not> equals (elems_of 1 0 0 1 0 0) (elems_of (1 + 2 / 10 ^ 7) 0 0 1 0 0) (Some 0)
   \<and> \<not> equals (elems_of 1 0 0 1 0 0) (elems_of (1 + 2 / 10 ^ 7) 0 0 1 0 0) None"
  using equals_zero_tolerance [of "elems_of 1 0 0 1 0 0" "elems_of (1 + 5 / 10 ^ 8) 0 0 1 0 0"]
    equals_zero_tolerance [of "elems_of 1 0 0 1 0 0" "elems_of (1 + 2 / 10 ^ 7) 0 0 1 0 0"]
  by auto

subsection \<open>C1: recomposing a decomposition\<close>

lemma magnitude_pos: "a \<noteq> 0 \<or> b \<noteq> 0 \<Longrightarrow> 0 < magnitude (a, b)"
proof -
  assume "a \<noteq> 0 \<or> b \<noteq> 0"
  then have "0 < a * a + b * b"
    by (metis add_pos_nonneg add_nonneg_pos zero_le_square not_real_square_gt_zero)
  then show ?thesis by (simp add: magnitude_def)
qed

lemma magnitude_sq: "magnitude (a, b) * magnitude (a, b) = a * a + b * b"
  by (simp add: magnitude_def)

lemma unit_vector:
  assumes "a \<noteq> 0 \<or> b \<noteq> 0"
  shows "(a / magnitude (a, b))\<^sup>2 + (b / magnitude (a, b))\<^sup>2 = 1"
proof -
  have p: "0 < magnitude (a, b)" using assms by (rule magnitude_pos)
  have "(a / magnitude (a, b))\<^sup>2 + (b / magnitude (a, b))\<^sup>2
        = (a * a + b * b) / (magnitude (a, b) * magnitude (a, b))"
    by (simp add: power2_eq_square add_divide_distrib)
  also have "\<dots> = 1" using p assms by (simp add: magnitude_sq)
  finally show ?thesis .
qed

lemma rotation_cos_sin:
  fixes x y :: real
  assumes u: "x\<^sup>2 + y\<^sup>2 = 1"
  defines "rot \<equiv> (if y \<ge> 0 then arccos x else (2 * pi) - arccos x)"
  shows "cos rot = x" and "sin rot = y" and "0 \<le> rot" and "rot < 2 * pi"
proof -
  have x2: "x\<^sup>2 \<le> 1" using u by (metis le_add_same_cancel1 zero_le_power2)
  then have "\<bar>x\<bar> \<le> 1" by (simp add: abs_square_le_1)
  then have b: "- 1 \<le> x" "x \<le> 1" by auto
  have s: "sin (arccos x) = \<bar>y\<bar>"
  proof -
    have "sin (arccos x) = sqrt (1 - x\<^sup>2)" using b by (rule sin_arccos)
    also have "1 - x\<^sup>2 = y\<^sup>2" using u by simp
    finally show ?thesis by simp
  qed
  show "cos rot = x" using b by (simp add: rot_def)
  show "sin rot = y" using s by (simp add: rot_def)
  have ab: "0 \<le> arccos x" "arccos x \<le> pi" using b by (simp_all add: arccos_lbound arccos_ubound)
  show "0 \<le> rot" using ab by (simp add: rot_def)
  show "rot < 2 * pi"
  proof (cases "y \<ge> 0")
    case True
    have "arccos x < 2 * pi" using ab pi_gt_zero by linarith
    with True show ?thesis by (simp add: rot_def)
  next
    case False
    then have "sin (arccos x) \<noteq> 0" using s by simp
    then have "arccos x \<noteq> 0" by auto
    then show ?thesis using False ab by (simp add: rot_def)
  qed
qed

lemma scaleY_value:
  fixes a b c d :: real
  assumes nz: "a \<noteq> 0 \<or> b \<noteq> 0"
  defines "mag \<equiv> magnitude (a, b)"
  defines "L \<equiv> dotProduct (a / mag, b / mag) (c, d)"
  defines "desheared \<equiv> combine (scalar (a / mag, b / mag) (- L)) (c, d)"
  shows "fst desheared = - (b / mag) * ((a * d - b * c) / mag)"
    and "snd desheared = (a / mag) * ((a * d - b * c) / mag)"
    and "magnitude (fst desheared, snd desheared) = \<bar>a * d - b * c\<bar> / mag"
proof -
  have p: "0 < mag" unfolding mag_def using nz by (rule magnitude_pos)
  have sq: "mag * mag = a * a + b * b" unfolding mag_def by (rule magnitude_sq)
  have u: "(a / mag)\<^sup>2 + (b / mag)\<^sup>2 = 1" unfolding mag_def using nz by (rule unit_vector)
  show f: "fst desheared = - (b / mag) * ((a * d - b * c) / mag)"
  proof -
    have "fst desheared = c - (a * c + b * d) * a / (mag * mag)"
      using p by (simp add: desheared_def L_def combine_def scalar_def dotProduct_def field_simps)
    also have "\<dots> = (c * (a * a + b * b) - (a * c + b * d) * a) / (mag * mag)"
      using p nz by (simp add: sq diff_divide_distrib)
    also have "\<dots> = - (b / mag) * ((a * d - b * c) / mag)"
      by (simp add: algebra_simps diff_divide_distrib)
    finally show ?thesis .
  qed
  show s: "snd desheared = (a / mag) * ((a * d - b * c) / mag)"
  proof -
    have "snd desheared = d - (a * c + b * d) * b / (mag * mag)"
      using p by (simp add: desheared_def L_def combine_def scalar_def dotProduct_def field_simps)
    also have "\<dots> = (d * (a * a + b * b) - (a * c + b * d) * b) / (mag * mag)"
      using p nz by (simp add: sq diff_divide_distrib)
    also have "\<dots> = (a / mag) * ((a * d - b * c) / mag)"
      by (simp add: algebra_simps diff_divide_distrib)
    finally show ?thesis .
  qed
  have "(- q * D) * (- q * D) + (p * D) * (p * D) = (p\<^sup>2 + q\<^sup>2) * D\<^sup>2" for p q D :: real
    by (simp add: power2_eq_square algebra_simps)
  then have "(fst desheared * fst desheared) + (snd desheared * snd desheared)
        = ((a / mag)\<^sup>2 + (b / mag)\<^sup>2) * ((a * d - b * c) / mag)\<^sup>2"
    unfolding f s .
  also have "\<dots> = ((a * d - b * c) / mag)\<^sup>2" by (simp add: u)
  finally have "magnitude (fst desheared, snd desheared) = \<bar>(a * d - b * c) / mag\<bar>"
    by (simp add: magnitude_def)
  then show "magnitude (fst desheared, snd desheared) = \<bar>a * d - b * c\<bar> / mag"
    using p by simp
qed

lemma recompose_elems:
  "sy \<noteq> 0 \<Longrightarrow>
   recompose \<lparr>dTranslateX = e, dTranslateY = f, dScaleX = sx, dScaleY = sy,
              dShear = sh, dRotate = rot, dRotationRads = rot, dRotationDegs = dg\<rparr>
   = elems_of (cos rot * sx) (sin rot * sx)
              ((cos rot * sh - sin rot) * sy) ((sin rot * sh + cos rot) * sy) e f"
  by (simp add: recompose_def translate_def rotateRad_def skewXRad_def multiply_def
      identity_def or_default_def tan_arctan Let_def)

lemma equals_refl: "0 \<le> t \<Longrightarrow> equals m m (Some t)"
  by (simp add: equals_iff or_default_def default_tolerance_def Let_def)

text \<open>
  What the steps of \<open>Neo.decompose\<close> undo.  For a matrix with a positive determinant
  \<open>a * d - b * c\<close>, \<open>decompose\<close> succeeds, and the components multiplied as
  \<open>translate(tx, ty) \<circ> rotateRad(rotation) \<circ> skewXRad(atan(shear)) \<circ> scale(scaleX, scaleY)\<close>
  (translation outermost, scale innermost) give the matrix back, exactly in real arithmetic.
  This is not the order that the comments of the function and the claim state, and it does
  not cover a negative determinant.
\<close>

theorem decompose_recompose:
  assumes det: "0 < el0 m * el3 m - el1 m * el2 m"
  shows "\<exists>r. decompose m = Some r \<and> recompose r = m \<and> equals (recompose r) m (Some (1 / 10 ^ 6))"
proof -
  define a b c d where "a = el0 m" and "b = el1 m" and "c = el2 m" and "d = el3 m"
  define mag where "mag = magnitude (a, b)"
  define L where "L = dotProduct (a / mag, b / mag) (c, d)"
  define des where "des = combine (scalar (a / mag, b / mag) (- L)) (c, d)"
  define sy where "sy = magnitude (fst des, snd des)"
  define rot where "rot = (if b / mag \<ge> 0 then arccos (a / mag) else (2 * pi) - arccos (a / mag))"
  define r where "r = \<lparr>dTranslateX = el4 m, dTranslateY = el5 m, dScaleX = mag, dScaleY = sy,
     dShear = L / sy, dRotate = rot, dRotationRads = rot, dRotationDegs = rot * (180 / pi)\<rparr>"
  have dpos: "0 < a * d - b * c" using det by (simp add: a_def b_def c_def d_def)
  have nz: "a \<noteq> 0 \<or> b \<noteq> 0" using dpos by auto
  have mpos: "0 < mag" unfolding mag_def using nz by (rule magnitude_pos)
  have dec: "decompose m = Some r"
    using dpos
    by (simp add: decompose_def Let_def r_def rot_def sy_def des_def L_def mag_def
        a_def b_def c_def d_def)
  have cs: "cos rot = a / mag" "sin rot = b / mag"
    unfolding rot_def mag_def using unit_vector [OF nz] by (rule rotation_cos_sin)+
  have syv: "sy = (a * d - b * c) / mag"
    unfolding sy_def des_def L_def mag_def using scaleY_value(3) [OF nz, of c d] dpos by simp
  have sypos: "0 < sy" using syv dpos mpos by simp
  have f1: "fst des = - (b / mag) * sy"
    unfolding syv des_def L_def mag_def using scaleY_value(1) [OF nz, of c d] by simp
  have f2: "snd des = (a / mag) * sy"
    unfolding syv des_def L_def mag_def using scaleY_value(2) [OF nz, of c d] by simp
  have cc: "c = L * (a / mag) + fst des"
    by (simp add: des_def combine_def scalar_def)
  have dd: "d = L * (b / mag) + snd des"
    by (simp add: des_def combine_def scalar_def)
  have e0: "cos rot * mag = a" using mpos by (simp add: cs)
  have e1: "sin rot * mag = b" using mpos by (simp add: cs)
  have e2: "(cos rot * (L / sy) - sin rot) * sy = c"
  proof -
    have "(cos rot * (L / sy) - sin rot) * sy = L * (a / mag) - (b / mag) * sy"
      using sypos by (simp add: cs field_simps)
    also have "\<dots> = c" by (simp add: cc f1)
    finally show ?thesis .
  qed
  have e3: "(sin rot * (L / sy) + cos rot) * sy = d"
  proof -
    have "(sin rot * (L / sy) + cos rot) * sy = L * (b / mag) + (a / mag) * sy"
      using sypos by (simp add: cs field_simps)
    also have "\<dots> = d" by (simp add: dd f2)
    finally show ?thesis .
  qed
  have "sy \<noteq> 0" using sypos by simp
  then have "recompose r = elems_of (cos rot * mag) (sin rot * mag)
      ((cos rot * (L / sy) - sin rot) * sy) ((sin rot * (L / sy) + cos rot) * sy) (el4 m) (el5 m)"
    unfolding r_def by (rule recompose_elems)
  then have "recompose r = elems_of a b c d (el4 m) (el5 m)"
    unfolding e0 e1 e2 e3 .
  then have rec: "recompose r = m"
    by (simp add: a_def b_def c_def d_def elems_of_eta)
  have "equals (recompose r) m (Some (1 / 10 ^ 6))"
    unfolding rec by (rule equals_refl) simp
  with dec rec show ?thesis by blast
qed

theorem decompose_recompose_witness:
  "0 < el0 (elems_of 0 2 (- 1) 0 1 0) * el3 (elems_of 0 2 (- 1) 0 1 0)
       - el1 (elems_of 0 2 (- 1) 0 1 0) * el2 (elems_of 0 2 (- 1) 0 1 (0::real))
   \<and> (\<exists>r. decompose (elems_of 0 2 (- 1) 0 1 0) = Some r
          \<and> recompose r = elems_of 0 2 (- 1) 0 1 0)"
proof -
  have h: "0 < el0 (elems_of 0 2 (- 1) 0 1 0) * el3 (elems_of 0 2 (- 1) 0 1 0)
       - el1 (elems_of 0 2 (- 1) 0 1 0) * el2 (elems_of 0 2 (- 1) 0 1 (0::real))"
    by simp
  from decompose_recompose [OF h] h show ?thesis by blast
qed

text \<open>
  C1 fails on the code, which breaks its own comments.  The comments of \<open>Neo.decompose\<close>
  state the order of the claim: a matrix "can be reproduced with a rotation, followed by a
  shear along the x axis, followed by a scale, followed by a translate", and "reapply the
  transforms in the correct order - rotate, skew, scale, translate".  Their example,
  \<open>translate(300,100)\<close> then \<open>scale(2)\<close> being \<open>scale(2)\<close> then \<open>translate(600,200)\<close>,
  holds when the transform named first is applied to the point first; so the rotation is
  innermost and the translation outermost, which is \<open>recompose_spec\<close>.

  At the matrix \<open>(0, 2, -1, 0, 1, 0)\<close>, of determinant 2 (a scale by \<open>(2, 1)\<close>, then a
  rotation by a quarter turn, then a translation by \<open>(1, 0)\<close>), the components are
  \<open>translateX = 1\<close>, \<open>translateY = 0\<close>, \<open>scaleX = 2\<close>, \<open>scaleY = 1\<close>, \<open>shear = 0\<close>,
  \<open>rotation = pi / 2\<close>.  Recomposed in the stated order they give \<open>(0, 1, -2, 0, 1, 0)\<close>,
  which differs from the matrix by 1 in two elements.  Chained as builder calls in the order
  rotate, shear, scale, translate they give \<open>(0, 2, -1, 0, 0, 2)\<close>, which differs in the
  translation.

  At the reflection \<open>(1, 0, 0, -1, 0, 0)\<close>, of determinant -1, the components are those of
  the identity, since \<open>scaleY\<close> is a magnitude, and they recompose to the identity.
\<close>

theorem recompose_documented_order_fails:
  "el0 (elems_of 0 2 (- 1) 0 1 0) * el3 (elems_of 0 2 (- 1) 0 1 0)
       - el1 (elems_of 0 2 (- 1) 0 1 0) * el2 (elems_of 0 2 (- 1) 0 1 0) = (2::real)
   \<and> decompose (elems_of 0 2 (- 1) 0 1 0)
       = Some \<lparr>dTranslateX = 1, dTranslateY = 0, dScaleX = 2, dScaleY = 1, dShear = 0,
               dRotate = pi / 2, dRotationRads = pi / 2, dRotationDegs = pi / 2 * (180 / pi)\<rparr>
   \<and> recompose_spec \<lparr>dTranslateX = 1, dTranslateY = 0, dScaleX = 2, dScaleY = 1, dShear = 0,
               dRotate = pi / 2, dRotationRads = pi / 2, dRotationDegs = pi / 2 * (180 / pi)\<rparr>
       = elems_of 0 1 (- 2) 0 1 0
   \<and> \<not> equals (elems_of 0 1 (- 2) 0 1 0) (elems_of 0 2 (- 1) 0 1 0) (Some (1 / 10 ^ 6))
   \<and> recompose_chain \<lparr>dTranslateX = 1, dTranslateY = 0, dScaleX = 2, dScaleY = 1, dShear = 0,
               dRotate = pi / 2, dRotationRads = pi / 2, dRotationDegs = pi / 2 * (180 / pi)\<rparr>
       = elems_of 0 2 (- 1) 0 0 2
   \<and> \<not> equals (elems_of 0 2 (- 1) 0 0 2) (elems_of 0 2 (- 1) 0 1 0) (Some (1 / 10 ^ 6))
   \<and> el0 (elems_of 1 0 0 (- 1) 0 0) * el3 (elems_of 1 0 0 (- 1) 0 0)
       - el1 (elems_of 1 0 0 (- 1) 0 0) * el2 (elems_of 1 0 0 (- 1) 0 0) = (- 1::real)
   \<and> decompose (elems_of 1 0 0 (- 1) 0 0)
       = Some \<lparr>dTranslateX = 0, dTranslateY = 0, dScaleX = 1, dScaleY = 1, dShear = 0,
               dRotate = 0, dRotationRads = 0, dRotationDegs = 0\<rparr>
   \<and> recompose_spec \<lparr>dTranslateX = 0, dTranslateY = 0, dScaleX = 1, dScaleY = 1, dShear = 0,
               dRotate = 0, dRotationRads = 0, dRotationDegs = 0\<rparr>
       = elems_of 1 0 0 1 0 0
   \<and> \<not> equals (elems_of 1 0 0 1 0 0) (elems_of 1 0 0 (- 1) 0 0) (Some (1 / 10 ^ 6))"
proof (intro conjI)
  show "decompose (elems_of 0 2 (- 1) 0 1 0)
       = Some \<lparr>dTranslateX = 1, dTranslateY = 0, dScaleX = 2, dScaleY = 1, dShear = 0,
               dRotate = pi / 2, dRotationRads = pi / 2, dRotationDegs = pi / 2 * (180 / pi)\<rparr>"
    by (simp add: decompose_def Let_def magnitude_def dotProduct_def combine_def scalar_def)
  show "recompose_spec \<lparr>dTranslateX = 1, dTranslateY = 0, dScaleX = 2, dScaleY = 1, dShear = 0,
               dRotate = pi / 2, dRotationRads = pi / 2, dRotationDegs = pi / 2 * (180 / pi)\<rparr>
       = elems_of 0 1 (- 2) 0 1 0"
    by (simp add: recompose_spec_def translate_def rotateRad_def skewXRad_def multiply_def
        identity_def or_default_def Let_def)
  show "\<not> equals (elems_of 0 1 (- 2) 0 1 0) (elems_of 0 2 (- 1) 0 1 0) (Some (1 / 10 ^ 6))"
    by (simp add: equals_iff or_default_def Let_def)
  show "recompose_chain \<lparr>dTranslateX = 1, dTranslateY = 0, dScaleX = 2, dScaleY = 1, dShear = 0,
               dRotate = pi / 2, dRotationRads = pi / 2, dRotationDegs = pi / 2 * (180 / pi)\<rparr>
       = elems_of 0 2 (- 1) 0 0 2"
    by (simp add: recompose_chain_def translate_def rotateRad_def skewXRad_def multiply_def
        identity_def or_default_def Let_def)
  show "\<not> equals (elems_of 0 2 (- 1) 0 0 2) (elems_of 0 2 (- 1) 0 1 0) (Some (1 / 10 ^ 6))"
    by (simp add: equals_iff or_default_def Let_def)
  show "decompose (elems_of 1 0 0 (- 1) 0 0)
       = Some \<lparr>dTranslateX = 0, dTranslateY = 0, dScaleX = 1, dScaleY = 1, dShear = 0,
               dRotate = 0, dRotationRads = 0, dRotationDegs = 0\<rparr>"
    by (simp add: decompose_def Let_def magnitude_def dotProduct_def combine_def scalar_def)
  show "recompose_spec \<lparr>dTranslateX = 0, dTranslateY = 0, dScaleX = 1, dScaleY = 1, dShear = 0,
               dRotate = 0, dRotationRads = 0, dRotationDegs = 0\<rparr>
       = elems_of 1 0 0 1 0 0"
    by (simp add: recompose_spec_def translate_def rotateRad_def skewXRad_def multiply_def
        identity_def or_default_def Let_def)
  show "\<not> equals (elems_of 1 0 0 1 0 0) (elems_of 1 0 0 (- 1) 0 0) (Some (1 / 10 ^ 6))"
    by (simp add: equals_iff or_default_def Let_def)
qed simp_all

text \<open>
  The reflection and the identity have the same components, so no order of recomposition
  tells them apart.
\<close>

lemma decompose_reflection:
  "decompose (elems_of 1 0 0 (- 1) 0 0)
     = Some \<lparr>dTranslateX = 0, dTranslateY = 0, dScaleX = 1, dScaleY = 1, dShear = 0,
             dRotate = 0, dRotationRads = 0, dRotationDegs = 0\<rparr>
   \<and> decompose identity = decompose (elems_of 1 0 0 (- 1) 0 0)"
  by (simp add: decompose_def Let_def magnitude_def dotProduct_def combine_def scalar_def
      identity_def)

subsection \<open>C4: a rotation close to a full turn\<close>

text \<open>A lower bound of \<open>pi\<close> from Machin's formula and two polynomial bounds of \<open>arctan\<close>.\<close>

lemma arctan_poly_lower:
  fixes x :: real
  assumes "0 \<le> x"
  shows "x - x ^ 3 / 3 + x ^ 5 / 5 - x ^ 7 / 7 \<le> arctan x"
proof -
  define g where "g t = arctan t - (t - t ^ 3 / 3 + t ^ 5 / 5 - t ^ 7 / 7)" for t :: real
  have dg: "(g has_real_derivative (t ^ 8 / (1 + t\<^sup>2))) (at t)" for t :: real
  proof -
    have "0 < 1 + t\<^sup>2" by (simp add: add_pos_nonneg)
    then have nz: "1 + t\<^sup>2 \<noteq> 0" by simp
    have "(g has_real_derivative (inverse (1 + t\<^sup>2) - (1 - t ^ 2 + t ^ 4 - t ^ 6))) (at t)"
      unfolding g_def by (auto intro!: derivative_eq_intros)
    moreover have "inverse (1 + t\<^sup>2) - (1 - t ^ 2 + t ^ 4 - t ^ 6) = t ^ 8 / (1 + t\<^sup>2)"
      using nz by (simp add: field_simps eval_nat_numeral)
    ultimately show ?thesis by simp
  qed
  have "g 0 \<le> g x"
  proof (rule DERIV_nonneg_imp_nondecreasing [OF assms])
    fix t :: real
    assume "0 \<le> t" "t \<le> x"
    have "0 \<le> t ^ 8 / (1 + t\<^sup>2)" by simp
    with dg show "\<exists>y. (g has_real_derivative y) (at t) \<and> 0 \<le> y" by blast
  qed
  then show ?thesis by (simp add: g_def)
qed

lemma arctan_le_arg:
  fixes x :: real
  assumes "0 \<le> x"
  shows "arctan x \<le> x"
proof -
  define g where "g t = t - arctan t" for t :: real
  have dg: "(g has_real_derivative (1 - inverse (1 + t\<^sup>2))) (at t)" for t :: real
    unfolding g_def by (auto intro!: derivative_eq_intros)
  have "g 0 \<le> g x"
  proof (rule DERIV_nonneg_imp_nondecreasing [OF assms])
    fix t :: real
    assume "0 \<le> t" "t \<le> x"
    have "1 \<le> 1 + t\<^sup>2" by simp
    then have "inverse (1 + t\<^sup>2) \<le> 1" by (simp add: inverse_le_1_iff)
    then have "0 \<le> 1 - inverse (1 + t\<^sup>2)" by simp
    with dg show "\<exists>y. (g has_real_derivative y) (at t) \<and> 0 \<le> y" by blast
  qed
  then show ?thesis by (simp add: g_def)
qed

lemma pi_lower: "3.14159 < pi"
proof -
  have a: "(1/5) - (1/5) ^ 3 / 3 + (1/5) ^ 5 / 5 - (1/5) ^ 7 / 7 \<le> arctan (1/5 :: real)"
    by (rule arctan_poly_lower) simp
  have b: "arctan (1/239 :: real) \<le> 1/239"
    by (rule arctan_le_arg) simp
  have c: "(1/5) - (1/5) ^ 3 / 3 + (1/5) ^ 5 / 5 - (1/5) ^ 7 / 7 = (323852 / 1640625 :: real)"
    by (simp add: power_divide)
  from a c have a': "323852 / 1640625 \<le> arctan (1/5 :: real)" by simp
  have "pi = 16 * arctan (1/5) - 4 * arctan (1/239)"
    using machin by simp
  with a' b have "314159 / 100000 < pi" by linarith
  then show ?thesis by simp
qed

lemma decompose_rotation:
  assumes r: "pi < r" "r < 2 * pi"
  shows "decompose (elems_of (cos r) (sin r) (- sin r) (cos r) 0 0)
     = Some \<lparr>dTranslateX = 0, dTranslateY = 0, dScaleX = 1, dScaleY = 1, dShear = 0,
             dRotate = r, dRotationRads = r, dRotationDegs = r * (180 / pi)\<rparr>"
proof -
  have one: "cos r * cos r + sin r * sin r = 1"
    using sin_cos_squared_add3 [of r] by (simp add: add.commute)
  have neg: "sin r < 0"
  proof -
    have "0 < sin (r - pi)" using r by (intro sin_gt_zero) simp_all
    then show ?thesis by simp
  qed
  have "arccos (cos r) = arccos (cos (2 * pi - r))" by (simp add: cos_diff)
  also have "\<dots> = 2 * pi - r" using r by (intro arccos_cos) simp_all
  finally have ac: "arccos (cos r) = 2 * pi - r" .
  have one': "sin r * sin r + cos r * cos r = 1" using one by (simp only: add.commute)
  have det: "cos r * cos r \<noteq> - (sin r * sin r)" using one by linarith
  show ?thesis
    using neg det
    by (simp add: decompose_def Let_def magnitude_def dotProduct_def combine_def scalar_def
        one one' ac)
qed

lemma rotate_deg_identity:
  "rotate_deg identity x None
     = elems_of (cos (x * deg2rad)) (sin (x * deg2rad)) (- sin (x * deg2rad)) (cos (x * deg2rad)) 0 0"
  by (simp add: rotateRad_def multiply_def identity_def Let_def)

lemma decimal_string_359_999: "decimal_string (359999 / 1000) = ''359.999''"
  by (simp add: decimal_string_def digits_of.simps frac_digits.simps digit_char_def)

text \<open>
  C4 at \<open>new Neo().rotate(359.9993).toCSSString(3)\<close>.  The decomposed rotation is the angle
  passed, \<open>359.9993 * 0.01745329251994\<close> radians; in degrees it is within \<open>limit = 0.001\<close>
  of 360.  The test \<open>d.rotate < 360 - limit\<close> compares the radians with 360 and holds, the
  rounded value is \<open>359.999\<close>, not \<open>360\<close>, and the token \<open>rotate(359.999deg)\<close> is emitted.
\<close>

theorem rotate_near_360_emitted:
  "decompose (rotate_deg identity (3599993 / 10000) None)
     = Some \<lparr>dTranslateX = 0, dTranslateY = 0, dScaleX = 1, dScaleY = 1, dShear = 0,
             dRotate = 3599993 / 10000 * deg2rad, dRotationRads = 3599993 / 10000 * deg2rad,
             dRotationDegs = 3599993 / 10000 * deg2rad * (180 / pi)\<rparr>
   \<and> 360 - limit_of (Some 3) < 3599993 / 10000 * deg2rad * r2d
   \<and> 3599993 / 10000 * deg2rad * r2d < 360
   \<and> toCSSString decimal_string (Some 3) (rotate_deg identity (3599993 / 10000) None)
       = Inr ''   rotate(359.999deg)    ''"
proof -
  define r :: real where "r = 3599993 / 10000 * deg2rad"
  have r1: "pi < r" using pi_less_4 by (simp add: r_def deg2rad_def)
  have r2: "r < 2 * pi" using pi_lower by (simp add: r_def deg2rad_def)
  have d: "decompose (rotate_deg identity (3599993 / 10000) None)
     = Some \<lparr>dTranslateX = 0, dTranslateY = 0, dScaleX = 1, dScaleY = 1, dShear = 0,
             dRotate = r, dRotationRads = r, dRotationDegs = r * (180 / pi)\<rparr>"
    unfolding rotate_deg_identity r_def [symmetric] using r1 r2 by (rule decompose_rotation)
  have s: "s_fixed (Some 3) (r * r2d) = Inr (359999 / 1000)"
    by (simp add: s_fixed_def toFixed_plus_def precision_or_7_def r_def deg2rad_def r2d_def)
  have lim: "limit_of (Some 3) < r" "r < 360 - limit_of (Some 3)"
    using r1 r2 pi_less_4 pi_ge_two by (simp_all add: limit_of_def precision_or_7_def)
  have v: "toCSSString_vars decimal_string (Some 3)
         \<lparr>dTranslateX = 0, dTranslateY = 0, dScaleX = 1, dScaleY = 1, dShear = 0,
             dRotate = r, dRotationRads = r, dRotationDegs = r * (180 / pi)\<rparr>
       = Inr \<lparr>v_rotate = Some ''359.999deg'', v_skewX = None, v_scaleX = None, v_scaleY = None,
              v_translateX = None, v_translateY = None\<rparr>"
    using lim
    by (simp add: toCSSString_vars_def bind_err_def Let_def s decimal_string_359_999)
       (simp add: limit_of_def precision_or_7_def)
  have out: "toCSSString decimal_string (Some 3) (rotate_deg identity (3599993 / 10000) None)
       = Inr ''   rotate(359.999deg)    ''"
    unfolding toCSSString_def d option.case toCSSString_parts_def v
    by (simp add: bind_err_def toCSSString_array_def
        Let_def truthy_str_def truthy_num_def truthy_scale_def)
  have w: "360 - limit_of (Some 3) < r * r2d" "r * r2d < 360"
    by (simp_all add: limit_of_def precision_or_7_def r_def deg2rad_def r2d_def)
  show ?thesis using d out w unfolding r_def by simp
qed

subsection \<open>C6: the order of the emitted tokens\<close>

lemma s_fixed_returns:
  "precision_or_7 precision \<le> 100 \<Longrightarrow> \<exists>v. s_fixed precision x = Inr v"
  by (simp add: s_fixed_def toFixed_plus_def)

lemma toCSSString_vars_returns:
  assumes "precision_or_7 precision \<le> 100"
  shows "\<exists>vars. toCSSString_vars str precision d = Inr vars"
proof -
  obtain v1 where v1: "s_fixed precision (dRotate d * r2d) = Inr v1"
    using s_fixed_returns [OF assms] by blast
  obtain v2 where v2: "s_fixed precision (arctan (dShear d) * r2d) = Inr v2"
    using s_fixed_returns [OF assms] by blast
  obtain v3 where v3: "s_fixed precision (dScaleX d) = Inr v3"
    using s_fixed_returns [OF assms] by blast
  obtain v4 where v4: "s_fixed precision (dScaleY d) = Inr v4"
    using s_fixed_returns [OF assms] by blast
  obtain v5 where v5: "s_fixed precision (dTranslateX d) = Inr v5"
    using s_fixed_returns [OF assms] by blast
  obtain v6 where v6: "s_fixed precision (dTranslateY d) = Inr v6"
    using s_fixed_returns [OF assms] by blast
  show ?thesis
    by (simp add: toCSSString_vars_def bind_err_def v1 v2 v3 v4 v5 v6 Let_def)
qed

lemma decimal_string_2: "decimal_string 2 = ''2''"
  by (simp add: decimal_string_def digits_of.simps frac_digits.simps digit_char_def)

lemma s_fixed_in_range:
  "x \<noteq> 0 \<Longrightarrow> precision_or_7 precision \<le> 100 \<Longrightarrow> \<bar>x\<bar> < 10 ^ 21 \<Longrightarrow>
   s_fixed precision x
     = Inr (sgn x * real_of_int \<lfloor>\<bar>x\<bar> * 10 ^ precision_or_7 precision + 1 / 2\<rfloor>
             / 10 ^ precision_or_7 precision)"
  by (simp add: s_fixed_def toFixed_plus_def)



text \<open>
  The variables and the array in closed form: under a precision of at most 100 digits every
  call of \<open>s\<close> returns, and each element of the array is empty or one token.
\<close>

lemma s_fixed_value:
  "precision_or_7 precision \<le> 100 \<Longrightarrow> s_fixed precision x = Inr (s_value precision x)"
  by (simp add: s_value_def s_fixed_def toFixed_plus_def)

lemma toCSSString_vars_value:
  assumes p: "precision_or_7 precision \<le> 100"
  shows "toCSSString_vars str precision d =
     Inr \<lparr>v_rotate = (if (dRotate d > limit_of precision) \<and> (dRotate d < (360 - limit_of precision))
                       then Some (str (s_value precision (dRotate d * r2d)) @ ''deg'') else None),
          v_skewX = (if (dShear d > limit_of precision) \<or> (dShear d < - limit_of precision)
                     then Some (str (s_value precision (arctan (dShear d) * r2d)) @ ''deg'') else None),
          v_scaleX = (if (dScaleX d > (1 + limit_of precision)) \<or> (dScaleX d < (1 - limit_of precision))
                      then Some (s_value precision (dScaleX d)) else None),
          v_scaleY = (if (dScaleY d > (1 + limit_of precision)) \<or> (dScaleY d < (1 - limit_of precision))
                      then Some (s_value precision (dScaleY d)) else None),
          v_translateX = (if (dTranslateX d > limit_of precision) \<or> (dTranslateX d < - limit_of precision)
                          then Some (str (s_value precision (dTranslateX d)) @ ''px'') else None),
          v_translateY = (if (dTranslateY d > limit_of precision) \<or> (dTranslateY d < - limit_of precision)
                          then Some (str (s_value precision (dTranslateY d)) @ ''px'') else None)\<rparr>"
  unfolding toCSSString_vars_def Let_def s_fixed_value [OF p]
  by (simp add: bind_err_def)

lemma array_tokens:
  "toCSSString_array str
      \<lparr>v_rotate = ro, v_skewX = sk, v_scaleX = sx, v_scaleY = sy,
       v_translateX = tx, v_translateY = ty\<rparr>
    = [ (if tx \<noteq> None \<and> ty \<noteq> None then ''translate('' @ the tx @ '','' @ the ty @ '')'' else []),
        (if truthy_str tx \<and> ty = None then ''translateX('' @ the tx @ '')'' else []),
        (if truthy_str ty \<and> tx = None then ''translateY('' @ the ty @ '')'' else []),
        (if truthy_str ro \<and> ro \<noteq> Some ''360deg'' then ''rotate('' @ the ro @ '')'' else []),
        (if sx \<noteq> None \<and> sy \<noteq> None
         then (if sx = sy then (if the sx \<noteq> 0 then ''scale('' @ str (the sx) @ '')'' else [])
               else ''scale('' @ str (the sx) @ '','' @ str (the sy) @ '')'')
         else []),
        (if truthy_str sk then ''skewX('' @ the sk @ '')'' else []),
        (if truthy_num sx \<and> sy = None then ''scaleX('' @ str (the sx) @ '')'' else []),
        (if truthy_num sy \<and> sx = None then ''scaleY('' @ str (the sy) @ '')'' else []) ]"
  unfolding toCSSString_array_def Let_def
  by (auto simp add: truthy_str_def truthy_num_def truthy_scale_def scale_text_def)


text \<open>
  An upper bound of \<open>pi\<close>, as the lower one, and the values that the examples print: a shear
  of 1 is an angle of \<open>pi / 4\<close>, which \<open>s\<close> rounds to 45 degrees at a precision of 1.
\<close>

lemma arctan_poly_upper:
  fixes x :: real
  assumes "0 \<le> x"
  shows "arctan x \<le> x - x ^ 3 / 3 + x ^ 5 / 5"
proof -
  define g where "g t = (t - t ^ 3 / 3 + t ^ 5 / 5) - arctan t" for t :: real
  have dg: "(g has_real_derivative (t ^ 6 / (1 + t\<^sup>2))) (at t)" for t :: real
  proof -
    have "0 < 1 + t\<^sup>2" by (simp add: add_pos_nonneg)
    then have nz: "1 + t\<^sup>2 \<noteq> 0" by simp
    have "(g has_real_derivative ((1 - t ^ 2 + t ^ 4) - inverse (1 + t\<^sup>2))) (at t)"
      unfolding g_def by (auto intro!: derivative_eq_intros)
    moreover have "(1 - t ^ 2 + t ^ 4) - inverse (1 + t\<^sup>2) = t ^ 6 / (1 + t\<^sup>2)"
      using nz by (simp add: field_simps eval_nat_numeral)
    ultimately show ?thesis by simp
  qed
  have "g 0 \<le> g x"
  proof (rule DERIV_nonneg_imp_nondecreasing [OF assms])
    fix t :: real
    assume "0 \<le> t" "t \<le> x"
    have "0 \<le> t ^ 6 / (1 + t\<^sup>2)" by simp
    with dg show "\<exists>y. (g has_real_derivative y) (at t) \<and> 0 \<le> y" by blast
  qed
  then show ?thesis by (simp add: g_def)
qed

lemma pi_upper: "pi < 3.1417"
proof -
  have a: "arctan (1/5 :: real) \<le> (1/5) - (1/5) ^ 3 / 3 + (1/5) ^ 5 / 5"
    by (rule arctan_poly_upper) simp
  have b: "(1/239) - (1/239) ^ 3 / 3 + (1/239) ^ 5 / 5 - (1/239) ^ 7 / 7 \<le> arctan (1/239 :: real)"
    by (rule arctan_poly_lower) simp
  have c: "(1/5) - (1/5) ^ 3 / 3 + (1/5) ^ 5 / 5 = (9253 / 46875 :: real)"
    by (simp add: power_divide)
  have e: "(1 / 240 :: real) \<le> (1/239) - (1/239) ^ 3 / 3 + (1/239) ^ 5 / 5 - (1/239) ^ 7 / 7"
    by (simp add: power_divide)
  from a c have a': "arctan (1/5 :: real) \<le> 9253 / 46875" by simp
  from b e have b': "1 / 240 \<le> arctan (1/239 :: real)" by linarith
  have "pi = 16 * arctan (1/5) - 4 * arctan (1/239)"
    using machin by simp
  with a' b' have "pi < 31417 / 10000" by linarith
  then show ?thesis by simp
qed

lemma s_fixed_45: "s_fixed (Some 1) (arctan 1 * r2d) = Inr 45"
proof -
  define x :: real where "x = arctan 1 * r2d"
  have b: "4499 / 100 < x" "x < 4501 / 100"
    using pi_lower pi_upper by (simp_all add: x_def arctan_one r2d_def)
  then have ax: "\<bar>x\<bar> = x" and sx: "sgn x = 1" and nz: "x \<noteq> 0" and lt: "\<bar>x\<bar> < 10 ^ 21"
    by simp_all
  have p: "precision_or_7 (Some 1) = 1" by (simp add: precision_or_7_def)
  have "450 \<le> x * 10 + 1 / 2" "x * 10 + 1 / 2 < 451" using b by simp_all
  then have f: "\<lfloor>x * 10 + 1 / 2\<rfloor> = 450" by linarith
  have "precision_or_7 (Some 1) \<le> 100" by (simp add: precision_or_7_def)
  from s_fixed_in_range [OF nz this lt]
  have "s_fixed (Some 1) x = Inr (real_of_int \<lfloor>x * 10 + 1 / 2\<rfloor> / 10)"
    unfolding p ax sx by simp
  then have "s_fixed (Some 1) x = Inr 45"
    unfolding f by simp
  then show ?thesis by (simp add: x_def)
qed

lemma decimal_string_45: "decimal_string 45 = ''45''"
  by (simp add: decimal_string_def digits_of.simps frac_digits.simps digit_char_def)

lemma decimal_string_3: "decimal_string 3 = ''3''"
  by (simp add: decimal_string_def digits_of.simps frac_digits.simps digit_char_def)

lemma s_value_45: "s_value (Some 1) (arctan 1 * r2d) = 45"
  unfolding s_value_def s_fixed_45 by simp

lemma s_value_2_3: "s_value (Some 1) 2 = 2" "s_value (Some 1) 3 = 3"
  by (simp_all add: s_value_def s_fixed_def toFixed_plus_def precision_or_7_def)




text \<open>
  The collapsed \<open>scale\<close> token.  The matrix \<open>(2, 0, 3, 3, 0, 0)\<close> is a shear by 1 applied
  after a scale by \<open>(2, 3)\<close>.  Both scales are emitted, so they are collapsed to \<open>scale(2,3)\<close>,
  which the array places before \<open>skewX(45deg)\<close>.  As a product, the scale followed by the
  shear is \<open>(2, 0, 2, 3, 0, 0)\<close>, not the matrix; the shear followed by the scale, the order
  of the \<open>scaleX\<close> and \<open>scaleY\<close> tokens, is the matrix.  The two placements of the array
  contradict each other, and the one of the collapsed token does not give the matrix back.
\<close>

lemma decompose_sheared_scaled:
  "decompose (elems_of 2 0 3 3 0 0)
     = Some \<lparr>dTranslateX = 0, dTranslateY = 0, dScaleX = 2, dScaleY = 3, dShear = 1,
             dRotate = 0, dRotationRads = 0, dRotationDegs = 0\<rparr>"
  by (simp add: decompose_def Let_def magnitude_def dotProduct_def combine_def scalar_def)

lemma collapsed_scale_before_skewX:
  "decompose (elems_of 2 0 3 3 0 0)
     = Some \<lparr>dTranslateX = 0, dTranslateY = 0, dScaleX = 2, dScaleY = 3, dShear = 1,
             dRotate = 0, dRotationRads = 0, dRotationDegs = 0\<rparr>
   \<and> toCSSString decimal_string (Some 1) (elems_of 2 0 3 3 0 0)
       = Inr ''    scale(2,3) skewX(45deg)  ''
   \<and> skewXRad (scale identity 2 (Some 3) None) (arctan 1) = elems_of 2 0 2 3 0 0
   \<and> scale (skewXRad identity (arctan 1)) 2 (Some 3) None = elems_of 2 0 3 3 0 0"
proof (intro conjI)
  show "decompose (elems_of 2 0 3 3 0 0)
     = Some \<lparr>dTranslateX = 0, dTranslateY = 0, dScaleX = 2, dScaleY = 3, dShear = 1,
             dRotate = 0, dRotationRads = 0, dRotationDegs = 0\<rparr>"
    by (rule decompose_sheared_scaled)
  have p: "precision_or_7 (Some 1) \<le> 100" by (simp add: precision_or_7_def)
  have v: "toCSSString_vars decimal_string (Some 1)
         \<lparr>dTranslateX = 0, dTranslateY = 0, dScaleX = 2, dScaleY = 3, dShear = 1,
             dRotate = 0, dRotationRads = 0, dRotationDegs = 0\<rparr>
       = Inr \<lparr>v_rotate = None, v_skewX = Some ''45deg'', v_scaleX = Some 2, v_scaleY = Some 3,
              v_translateX = None, v_translateY = None\<rparr>"
    unfolding toCSSString_vars_value [OF p] decomposition.select_convs s_value_45 s_value_2_3
    by (simp add: limit_of_def precision_or_7_def decimal_string_45)
  show "toCSSString decimal_string (Some 1) (elems_of 2 0 3 3 0 0)
       = Inr ''    scale(2,3) skewX(45deg)  ''"
    unfolding toCSSString_def decompose_sheared_scaled option.case toCSSString_parts_def v
    by (simp add: bind_err_def array_tokens truthy_str_def truthy_num_def
        decimal_string_2 decimal_string_3)
  show "skewXRad (scale identity 2 (Some 3) None) (arctan 1) = elems_of 2 0 2 3 0 0"
    by (simp add: skewXRad_def multiply_def identity_def or_default_def tan_arctan Let_def)
  show "scale (skewXRad identity (arctan 1)) 2 (Some 3) None = elems_of 2 0 3 3 0 0"
    by (simp add: skewXRad_def multiply_def identity_def or_default_def tan_arctan Let_def)
qed

subsection \<open>C9: what the methods leave unchanged\<close>

lemma extends_refl [simp]: "extends h h"
  by (simp add: extends_def)

lemma extends_nth: "extends h h' \<Longrightarrow> r < length h \<Longrightarrow> h' ! r = h ! r"
  unfolding extends_def by (metis nth_take)

lemma extends_length: "extends h h' \<Longrightarrow> length h \<le> length h'"
  unfolding extends_def
proof -
  assume a: "take (length h) h' = h"
  have "length (take (length h) h') = length h" by (simp only: a)
  then show ?thesis by simp
qed

lemma extends_trans:
  assumes "extends h h1" and "extends h1 h2"
  shows "extends h h2"
proof -
  have le: "length h \<le> length h1" using assms(1) by (rule extends_length)
  have "take (length h) h2 = take (length h) (take (length h1) h2)"
    using le by (simp add: min_def)
  also have "\<dots> = take (length h) h1" using assms(2) by (simp only: extends_def)
  also have "\<dots> = h" using assms(1) by (simp only: extends_def)
  finally show ?thesis by (simp add: extends_def)
qed

lemma extends_append [simp]: "extends h (h @ ys)"
  by (simp add: extends_def)

lemma extends_alloc: "extends h (fst (alloc h obj))"
  by (simp add: extends_def alloc_def)

lemma extends_alloc_update:
  "extends h ((h @ [obj])[length h := obj'])"
  by (simp add: extends_def)

lemma extends_new_Neo: "extends h (fst (new_Neo h args))"
  by (simp add: new_Neo_def extends_alloc)

lemma extends_Neo_multiply: "extends h (fst (Neo_multiply h this a))"
  by (simp add: Neo_multiply_def new_Neo_def alloc_def nth_arg_def extends_alloc_update)

lemma extends_Neo_translate: "extends h (fst (Neo_translate h this tx ty))"
  by (simp add: Neo_translate_def extends_Neo_multiply)

lemma extends_Neo_translateX: "extends h (fst (Neo_translateX h this tx))"
  by (simp add: Neo_translateX_def extends_Neo_multiply)

lemma extends_Neo_translateY: "extends h (fst (Neo_translateY h this ty))"
  by (simp add: Neo_translateY_def extends_Neo_multiply)

lemma extends_Neo_scaleX: "extends h (fst (Neo_scaleX h this sx))"
  by (simp add: Neo_scaleX_def extends_Neo_multiply)

lemma extends_Neo_scaleY: "extends h (fst (Neo_scaleY h this sy))"
  by (simp add: Neo_scaleY_def extends_Neo_multiply)

lemma extends_Neo_scale_None: "extends h (fst (Neo_scale h this sx sy None oy))"
  by (simp add: Let_def extends_Neo_multiply)

lemma extends_Neo_scale: "extends h (fst (Neo_scale h this sx sy ox oy))"
proof (cases ox)
  case None
  then show ?thesis by (simp only: extends_Neo_scale_None)
next
  case (Some x)
  obtain h1 r1 where t1: "Neo_translate h this (neg_js (Some x)) (neg_js oy) = (h1, r1)"
    by (cases "Neo_translate h this (neg_js (Some x)) (neg_js oy)")
  obtain h2 r2 where t2:
    "Neo_scale h1 r1 sx (if truthy sy then sy else sx) None None = (h2, r2)"
    by (cases "Neo_scale h1 r1 sx (if truthy sy then sy else sx) None None")
  have e1: "extends h h1" using extends_Neo_translate [of h this "neg_js (Some x)" "neg_js oy"]
    by (simp add: t1)
  have "extends h1 (fst (Neo_scale h1 r1 sx (if truthy sy then sy else sx) None None))"
    by (rule extends_Neo_scale_None)
  then have e2: "extends h1 h2" unfolding t2 fst_conv .
  have e3: "extends h2 (fst (Neo_translate h2 r2 (Some x) oy))" by (rule extends_Neo_translate)
  have "Neo_scale h this sx sy ox oy = Neo_translate h2 r2 (Some x) oy"
    using Some t1 t2 by (simp add: Let_def)
  then show ?thesis using e1 e2 e3 by (metis extends_trans)
qed

lemma extends_Neo_rotateRad: "extends h (fst (Neo_rotateRad h this r))"
  by (simp add: Neo_rotateRad_def Let_def extends_Neo_multiply)

lemma extends_Neo_rotate: "extends h (fst (Neo_rotate h this r ox oy))"
proof (cases ox)
  case None
  then show ?thesis by (simp add: extends_Neo_rotateRad)
next
  case (Some x)
  obtain h1 r1 where t1: "Neo_translate h this (neg_js (Some x)) (neg_js oy) = (h1, r1)"
    by (cases "Neo_translate h this (neg_js (Some x)) (neg_js oy)")
  obtain h2 r2 where t2: "Neo_rotate h1 r1 r None None = (h2, r2)"
    by (cases "Neo_rotate h1 r1 r None None")
  have e1: "extends h h1" using extends_Neo_translate [of h this "neg_js (Some x)" "neg_js oy"]
    by (simp add: t1)
  have e2: "extends h1 h2"
    using extends_Neo_rotateRad [of h1 r1 "Some (times_js (to_num r) deg2rad)"] t2 by simp
  have e3: "extends h2 (fst (Neo_translate h2 r2 (Some x) oy))" by (rule extends_Neo_translate)
  have "Neo_rotate h this r ox oy = Neo_translate h2 r2 (Some x) oy"
    using Some t1 t2 by simp
  then show ?thesis using e1 e2 e3 by (metis extends_trans)
qed

lemma extends_Neo_skewX: "extends h (fst (Neo_skewX h this ax))"
  by (simp add: Neo_skewX_def Neo_skewXRad_def extends_Neo_multiply)

lemma extends_Neo_skewY: "extends h (fst (Neo_skewY h this ay))"
  by (simp add: Neo_skewY_def Neo_skewYRad_def extends_Neo_multiply)

lemma extends_Neo_inverse: "extends h (fst (Neo_inverse h this))"
  by (simp add: Neo_inverse_def new_Neo_def alloc_def nth_arg_def extends_alloc_update)

lemma extends_apply_method: "extends h (fst (apply_method h matrix type args))"
  by (simp add: apply_method_def extends_Neo_multiply extends_Neo_translate
      extends_Neo_translateX extends_Neo_translateY extends_Neo_scale extends_Neo_scaleX
      extends_Neo_scaleY extends_Neo_rotate extends_Neo_skewX extends_Neo_skewY)

lemma extends_fromString_loop:
  "extends h (fromString_loop to_number ms h matrix)"
proof (induction ms arbitrary: h)
  case Nil
  then show ?case by simp
next
  case (Cons m ms)
  obtain name inner where m: "m = (name, inner)" by (cases m)
  obtain h1 r1 where a: "apply_method h matrix (type_of_match name)
       (map Some (getParameters to_number inner)) = (h1, r1)"
    by (cases "apply_method h matrix (type_of_match name) (map Some (getParameters to_number inner))")
  have "extends h h1"
    using extends_apply_method [of h matrix "type_of_match name"
        "map Some (getParameters to_number inner)"] by (simp add: a)
  moreover have "extends h1 (fromString_loop to_number ms h1 matrix)" by (rule Cons.IH)
  ultimately show ?case by (simp add: m a Let_def) (metis extends_trans)
qed

lemma returns_new_multiply: "returns_new h (Neo_multiply h this a)"
  by (simp add: returns_new_def extends_Neo_multiply)
     (simp add: Neo_multiply_def new_Neo_def alloc_def nth_arg_def)

lemma returns_new_translate: "returns_new h (Neo_translate h this tx ty)"
  by (simp add: Neo_translate_def returns_new_multiply)

lemma returns_new_trans:
  "extends h h' \<Longrightarrow> returns_new h' res \<Longrightarrow> returns_new h res"
  unfolding returns_new_def
  by (meson extends_trans extends_length le_trans)

lemma returns_new_rotateRad: "returns_new h (Neo_rotateRad h this r)"
  by (simp add: Neo_rotateRad_def Let_def returns_new_multiply)

lemma returns_new_scale: "returns_new h (Neo_scale h this sx sy ox oy)"
proof (cases ox)
  case None
  then show ?thesis by (simp add: Let_def returns_new_multiply)
next
  case (Some x)
  obtain h1 r1 where t1: "Neo_translate h this (neg_js (Some x)) (neg_js oy) = (h1, r1)"
    by (cases "Neo_translate h this (neg_js (Some x)) (neg_js oy)")
  obtain h2 r2 where t2:
    "Neo_scale h1 r1 sx (if truthy sy then sy else sx) None None = (h2, r2)"
    by (cases "Neo_scale h1 r1 sx (if truthy sy then sy else sx) None None")
  have e1: "extends h h1" using extends_Neo_translate [of h this "neg_js (Some x)" "neg_js oy"]
    by (simp add: t1)
  have "extends h1 (fst (Neo_scale h1 r1 sx (if truthy sy then sy else sx) None None))"
    by (rule extends_Neo_scale_None)
  then have e2: "extends h1 h2" unfolding t2 fst_conv .
  have e3: "returns_new h2 (Neo_translate h2 r2 (Some x) oy)" by (rule returns_new_translate)
  have "Neo_scale h this sx sy ox oy = Neo_translate h2 r2 (Some x) oy"
    using Some t1 t2 by (simp add: Let_def)
  then show ?thesis using e1 e2 e3 by (metis returns_new_trans)
qed

lemma returns_new_rotate: "returns_new h (Neo_rotate h this r ox oy)"
proof (cases ox)
  case None
  then show ?thesis by (simp add: returns_new_rotateRad)
next
  case (Some x)
  obtain h1 r1 where t1: "Neo_translate h this (neg_js (Some x)) (neg_js oy) = (h1, r1)"
    by (cases "Neo_translate h this (neg_js (Some x)) (neg_js oy)")
  obtain h2 r2 where t2: "Neo_rotate h1 r1 r None None = (h2, r2)"
    by (cases "Neo_rotate h1 r1 r None None")
  have e1: "extends h h1" using extends_Neo_translate [of h this "neg_js (Some x)" "neg_js oy"]
    by (simp add: t1)
  have "extends h1 (fst (Neo_rotate h1 r1 r None None))" by (rule extends_Neo_rotate)
  then have e2: "extends h1 h2" unfolding t2 fst_conv .
  have e3: "returns_new h2 (Neo_translate h2 r2 (Some x) oy)" by (rule returns_new_translate)
  have "Neo_rotate h this r ox oy = Neo_translate h2 r2 (Some x) oy"
    using Some t1 t2 by simp
  then show ?thesis using e1 e2 e3 by (metis returns_new_trans)
qed

lemma returns_new_inverse: "returns_new h (Neo_inverse h this)"
  by (simp add: returns_new_def extends_Neo_inverse)
     (simp add: Neo_inverse_def new_Neo_def alloc_def nth_arg_def)

text \<open>
  C9, as stated, fails for \<open>decompose\<close>: on the instance \<open>new Neo(2, 0, 0, 2, 50, 50)\<close>, whose
  field \<open>decomposed\<close> was never assigned, the call assigns that field.
\<close>

theorem decompose_assigns_receiver_counterexample:
  "new_Neo [] [num 2, num 0, num 0, num 2, num 50, num 50]
     = ([\<lparr>elements = Elements (elems_of 2 0 0 2 50 50), decomposed = NotAssigned\<rparr>], 0)
   \<and> fst (Neo_decompose
        [\<lparr>elements = Elements (elems_of 2 0 0 2 50 50), decomposed = NotAssigned\<rparr>] 0)
     = [\<lparr>elements = Elements (elems_of 2 0 0 2 50 50),
         decomposed = Decomposed (Some \<lparr>dTranslateX = 50, dTranslateY = 50, dScaleX = 2,
           dScaleY = 2, dShear = 0, dRotate = 0, dRotationRads = 0, dRotationDegs = 0\<rparr>)\<rparr>]
   \<and> fst (Neo_decompose
        [\<lparr>elements = Elements (elems_of 2 0 0 2 50 50), decomposed = NotAssigned\<rparr>] 0) ! 0
     \<noteq> [\<lparr>elements = Elements (elems_of 2 0 0 2 50 50), decomposed = NotAssigned\<rparr>] ! 0"
  by (simp add: new_Neo_def alloc_def nth_arg_def numbers_elements_def finite_of_def num_def
      upt_6 Neo_decompose_def decompose_field_def decompose_def Let_def magnitude_def
      dotProduct_def combine_def scalar_def)

text \<open>
  C9, amended.  \<open>multiply\<close>, \<open>translate\<close>, \<open>scale\<close>, \<open>rotate\<close> and \<open>inverse\<close> (with or without a
  pivot, for any arguments) leave every field of every existing instance unchanged, the
  receiver and an instance passed as argument included, and return a new instance.
  \<open>decompose\<close> creates no instance and leaves every \<open>elements\<close> array and every instance other
  than the receiver unchanged; it assigns the receiver's field \<open>decomposed\<close>.
\<close>

theorem operations_frame:
  "returns_new h (Neo_multiply h this a)
   \<and> returns_new h (Neo_translate h this tx ty)
   \<and> returns_new h (Neo_scale h this sx sy ox oy)
   \<and> returns_new h (Neo_rotate h this r px py)
   \<and> returns_new h (Neo_inverse h this)
   \<and> length (fst (Neo_decompose h this)) = length h
   \<and> map elements (fst (Neo_decompose h this)) = map elements h
   \<and> (k \<noteq> this \<longrightarrow> fst (Neo_decompose h this) ! k = h ! k)
   \<and> (this < length h \<longrightarrow>
        decomposed (fst (Neo_decompose h this) ! this) = decompose_field (elements (h ! this)))"
proof -
  have "(map elements h)[this := elements (h ! this)] = map elements h"
    by (cases "this < length h") (simp_all add: list_update_same_conv list_update_beyond)
  then have "map elements (fst (Neo_decompose h this)) = map elements h"
    by (simp add: Neo_decompose_def Let_def map_update)
  then show ?thesis
    by (simp add: returns_new_multiply returns_new_translate returns_new_scale
        returns_new_rotate returns_new_inverse)
       (simp add: Neo_decompose_def Let_def)
qed

theorem operations_frame_witness:
  "(1::nat) \<noteq> 0 \<and> (0::nat) < length [\<lparr>elements = Elements (elems_of 2 0 0 2 50 50), decomposed = NotAssigned\<rparr>,
        \<lparr>elements = Elements identity, decomposed = ResetRecord\<rparr>]
   \<and> fst (Neo_decompose
        [\<lparr>elements = Elements (elems_of 2 0 0 2 50 50), decomposed = NotAssigned\<rparr>,
         \<lparr>elements = Elements identity, decomposed = ResetRecord\<rparr>] 0) ! 1
      = \<lparr>elements = Elements identity, decomposed = ResetRecord\<rparr>
   \<and> decomposed (fst (Neo_decompose
        [\<lparr>elements = Elements (elems_of 2 0 0 2 50 50), decomposed = NotAssigned\<rparr>,
         \<lparr>elements = Elements identity, decomposed = ResetRecord\<rparr>] 0) ! 0)
      = Decomposed (decompose (elems_of 2 0 0 2 50 50))"
  using operations_frame [of
      "[\<lparr>elements = Elements (elems_of 2 0 0 2 50 50), decomposed = NotAssigned\<rparr>,
        \<lparr>elements = Elements identity, decomposed = ResetRecord\<rparr>]" 0 _ _ _ _ _ _ _ _ _ _ 1]
  by (simp add: decompose_field_def)


subsection \<open>C5: units of the parameters\<close>

lemma exec_all_example:
  "exec_all ''scale(2),translate(50,100)'' = [(''scale'', ''2''), (''translate'', ''50,100'')]"
  by code_simp

lemma type_of_match_examples:
  "type_of_match ''scale'' = ''scale''" "type_of_match ''translate'' = ''translate''"
  by code_simp+

lemma split_examples:
  "split_on CHR '','' ''2'' = [''2'']"
  "split_on CHR '','' ''50,100'' = [''50'', ''100'']"
  "split_on CHR '','' ''100grad'' = [''100grad'']"
  "split_on CHR '','' ''2rad,1turn,50px,90deg'' = [''2rad'', ''1turn'', ''50px'', ''90deg'']"
  by code_simp+

lemma replace_px_examples:
  "replace_first ''px'' [] ''2'' = ''2''"
  "replace_first ''px'' [] ''50'' = ''50''"
  "replace_first ''px'' [] ''100'' = ''100''"
  "replace_first ''px'' [] ''100grad'' = ''100grad''"
  "replace_first ''px'' [] ''2rad'' = ''2rad''"
  "replace_first ''px'' [] ''1turn'' = ''1turn''"
  "replace_first ''px'' [] ''50px'' = ''50''"
  "replace_first ''px'' [] ''90deg'' = ''90deg''"
  by code_simp+

lemma exec_angleUnits_examples:
  "exec_angleUnits ''2'' = None"
  "exec_angleUnits ''50'' = None"
  "exec_angleUnits ''100'' = None"
  "exec_angleUnits ''100grad'' = Some (''100'', ''grad'', [])"
  "exec_angleUnits ''2rad'' = Some (''2'', ''rad'', [])"
  "exec_angleUnits ''1turn'' = Some (''1'', ''turn'', [])"
  "exec_angleUnits ''90deg'' = Some (''90'', ''deg'', [])"
  by code_simp+

lemma toLowerCase_units:
  "toLowerCase ''grad'' = ''grad''" "toLowerCase ''rad'' = ''rad''"
  "toLowerCase ''turn'' = ''turn''" "toLowerCase ''deg'' = ''deg''"
  by code_simp+

lemma decimal_number_examples:
  "decimal_number ''2'' = Finite 2" "decimal_number ''50'' = Finite 50"
  "decimal_number ''100'' = Finite 100" "decimal_number ''1'' = Finite 1"
  "decimal_number ''90'' = Finite 90"
  by (simp_all add: decimal_number_def unsigned_decimal_def digit_value_def Let_def upt_rec)

lemma getParameter_unit:
  "replace_first ''px'' [] piece = t \<Longrightarrow> exec_angleUnits t = Some (before, u, after) \<Longrightarrow>
   getParameter to_number piece = convert_angle u (to_number (before @ after))"
  "replace_first ''px'' [] piece = t \<Longrightarrow> exec_angleUnits t = None \<Longrightarrow>
   getParameter to_number piece = to_number t"
  by (simp_all add: getParameter_def)

lemma convert_angle_units:
  "convert_angle ''rad'' (Finite x) = Finite (x * (180 / pi))"
  "convert_angle ''grad'' (Finite x) = Finite (x * (200 / pi))"
  "convert_angle ''turn'' (Finite x) = Finite (x * 360)"
  "convert_angle ''deg'' (Finite x) = Finite x"
  by (simp_all add: convert_angle_def toLowerCase_units times_js_def rad2deg_def grad2deg_def
      turn2deg_def Let_def)

text \<open>
  C5 at the argument text \<open>100grad\<close>.  The factor for \<open>grad\<close> is \<open>200 / Math.PI\<close>, so the
  parameter becomes \<open>100 * 200 / pi\<close> (about 6366.2), not \<open>100 * 180 / 200 = 90\<close>.  The other
  suffixes behave as the claim says: \<open>rad\<close> times \<open>180 / pi\<close>, \<open>turn\<close> times 360, \<open>px\<close> and \<open>deg\<close>
  unchanged.
\<close>

theorem grad_ratio_is_200_over_pi:
  "getParameters decimal_number ''100grad'' = [Finite (100 * (200 / pi))]
   \<and> 100 * (200 / pi) \<noteq> (100 * (180 / 200) :: real)
   \<and> getParameters decimal_number ''2rad,1turn,50px,90deg''
       = [Finite (2 * (180 / pi)), Finite (1 * 360), Finite 50, Finite 90]"
proof (intro conjI)
  have "getParameter decimal_number ''100grad'' = convert_angle ''grad'' (decimal_number ''100'')"
    using getParameter_unit(1) [OF replace_px_examples(4) exec_angleUnits_examples(4)] by simp
  then show "getParameters decimal_number ''100grad'' = [Finite (100 * (200 / pi))]"
    by (simp add: getParameters_def split_examples convert_angle_def toLowerCase_units
        decimal_number_examples times_js_def grad2deg_def Let_def)
  show "100 * (200 / pi) \<noteq> (100 * (180 / 200) :: real)"
    using pi_less_4 by (simp add: field_simps)
  have a: "getParameter decimal_number ''2rad'' = convert_angle ''rad'' (decimal_number ''2'')"
    using getParameter_unit(1) [OF replace_px_examples(5) exec_angleUnits_examples(5)] by simp
  have b: "getParameter decimal_number ''1turn'' = convert_angle ''turn'' (decimal_number ''1'')"
    using getParameter_unit(1) [OF replace_px_examples(6) exec_angleUnits_examples(6)] by simp
  have c: "getParameter decimal_number ''50px'' = decimal_number ''50''"
    using getParameter_unit(2) [OF replace_px_examples(7) exec_angleUnits_examples(2)] by simp
  have d: "getParameter decimal_number ''90deg'' = convert_angle ''deg'' (decimal_number ''90'')"
    using getParameter_unit(1) [OF replace_px_examples(8) exec_angleUnits_examples(7)] by simp
  show "getParameters decimal_number ''2rad,1turn,50px,90deg''
       = [Finite (2 * (180 / pi)), Finite (1 * 360), Finite 50, Finite 90]"
    by (simp add: getParameters_def split_examples a b c d convert_angle_def toLowerCase_units
        decimal_number_examples times_js_def rad2deg_def turn2deg_def Let_def)
qed

subsection \<open>C2: what fromString returns\<close>

text \<open>
  Whatever the string, the instance returned by \<open>fromString\<close> is the one created at the start,
  with the elements of the identity: no call in the loop assigns to it.
\<close>

lemma fromString_always_identity:
  "fst (fromString to_number h string) ! snd (fromString to_number h string)
     = \<lparr>elements = Elements identity, decomposed = ResetRecord\<rparr>"
proof -
  define h0 where "h0 = h @ [\<lparr>elements = Elements identity, decomposed = ResetRecord\<rparr>]"
  have n: "new_Neo h [] = (h0, length h)"
    by (simp add: new_Neo_def nth_arg_def alloc_def h0_def)
  have "extends h0 (fromString_loop to_number (exec_all string) h0 (length h))"
    by (rule extends_fromString_loop)
  moreover have "length h < length h0" by (simp add: h0_def)
  ultimately have "fromString_loop to_number (exec_all string) h0 (length h) ! length h
      = h0 ! length h"
    by (rule extends_nth)
  then show ?thesis by (simp add: fromString_def n) (simp add: h0_def)
qed


lemma numbers_elements_finite:
  "numbers_elements [num a, num b, num c, num d, num e, num f] = Elements (elems_of a b c d e f)"
  by (simp add: numbers_elements_def nth_arg_def finite_of_def num_def upt_6)

lemma Neo_multiply_finite:
  "this < length h \<Longrightarrow> elements (h ! this) = Elements m \<Longrightarrow>
   Neo_multiply h this (Numbers [num a, num b, num c, num d, num e, num f])
     = (h @ [\<lparr>elements = Elements (multiply m (elems_of a b c d e f)), decomposed = ResetRecord\<rparr>],
        length h)"
  by (simp add: Neo_multiply_def new_Neo_def alloc_def nth_arg_def numbers_elements_finite
      multiply_field_def nth_append)

text \<open>
  C2 at \<open>Neo.fromString('scale(2),translate(50,100)')\<close> on an empty heap.  Both functions are
  matched and called on the accumulator: the heap ends with the two instances they return,
  \<open>[2, 0, 0, 2, 0, 0]\<close> and \<open>[1, 0, 0, 1, 50, 100]\<close>, each computed from the identity and then
  dropped.  The instance returned is the accumulator, still the identity, where the builder
  chain \<open>scale(2).translate(50, 100)\<close> gives \<open>[2, 0, 0, 2, 100, 200]\<close>.
\<close>

theorem fromString_drops_results:
  "fromString decimal_number [] ''scale(2),translate(50,100)''
     = ([\<lparr>elements = Elements identity, decomposed = ResetRecord\<rparr>,
         \<lparr>elements = Elements (elems_of 2 0 0 2 0 0), decomposed = ResetRecord\<rparr>,
         \<lparr>elements = Elements (elems_of 1 0 0 1 50 100), decomposed = ResetRecord\<rparr>], 0)
   \<and> translate (scale identity 2 None None) 50 100 = elems_of 2 0 0 2 100 200
   \<and> identity \<noteq> elems_of 2 0 0 2 100 200"
proof (intro conjI)
  have p1: "map Some (getParameters decimal_number ''2'') = [num 2]"
    using getParameter_unit(2) [OF replace_px_examples(1) exec_angleUnits_examples(1)]
    by (simp add: getParameters_def split_examples decimal_number_examples num_def)
  have p2: "map Some (getParameters decimal_number ''50,100'') = [num 50, num 100]"
    using getParameter_unit(2) [OF replace_px_examples(2) exec_angleUnits_examples(2)]
          getParameter_unit(2) [OF replace_px_examples(3) exec_angleUnits_examples(3)]
    by (simp add: getParameters_def split_examples decimal_number_examples num_def)
  have n: "new_Neo [] [] = ([\<lparr>elements = Elements identity, decomposed = ResetRecord\<rparr>], 0)"
    by (simp add: new_Neo_def nth_arg_def alloc_def)
  have a1: "apply_method [\<lparr>elements = Elements identity, decomposed = ResetRecord\<rparr>] 0 ''scale'' [num 2]
      = ([\<lparr>elements = Elements identity, decomposed = ResetRecord\<rparr>,
          \<lparr>elements = Elements (elems_of 2 0 0 2 0 0), decomposed = ResetRecord\<rparr>], 1)"
    by (simp add: apply_method_def nth_arg_def truthy_def num_def [symmetric] Let_def
        Neo_multiply_finite multiply_def identity_def)
  have a2: "apply_method [\<lparr>elements = Elements identity, decomposed = ResetRecord\<rparr>,
          \<lparr>elements = Elements (elems_of 2 0 0 2 0 0), decomposed = ResetRecord\<rparr>] 0 ''translate''
          [num 50, num 100]
      = ([\<lparr>elements = Elements identity, decomposed = ResetRecord\<rparr>,
          \<lparr>elements = Elements (elems_of 2 0 0 2 0 0), decomposed = ResetRecord\<rparr>,
          \<lparr>elements = Elements (elems_of 1 0 0 1 50 100), decomposed = ResetRecord\<rparr>], 2)"
    by (simp add: apply_method_def nth_arg_def Neo_translate_def
        Neo_multiply_finite multiply_def identity_def)
  show "fromString decimal_number [] ''scale(2),translate(50,100)''
     = ([\<lparr>elements = Elements identity, decomposed = ResetRecord\<rparr>,
         \<lparr>elements = Elements (elems_of 2 0 0 2 0 0), decomposed = ResetRecord\<rparr>,
         \<lparr>elements = Elements (elems_of 1 0 0 1 50 100), decomposed = ResetRecord\<rparr>], 0)"
    unfolding fromString_def n exec_all_example
    by (simp add: type_of_match_examples p1 p2 a1 a2)
  show "translate (scale identity 2 None None) 50 100 = elems_of 2 0 0 2 100 200"
    by (simp add: translate_def multiply_def identity_def or_default_def)
  show "identity \<noteq> elems_of 2 0 0 2 100 200"
    by (simp add: identity_def)
qed

end
